theory Spec2Isabelle
  imports Complex_Main "HOL-Library.Word" "HOL-Library.Log_Nat"
begin

section \<open>Single-precision floats\<close>

text \<open>
  The C++ type \<open>float\<close> is IEEE 754 binary32. A value is a finite real that the format
  represents, an infinity or a NaN. The two zeros are identified: they compare equal,
  and no operation of \<open>MaterialParameter\<close> tells them apart. Every arithmetic operation
  rounds the exact result to the nearest representable value, ties to even
  (\<open>fl\<close>), and overflows to an infinity when the rounded magnitude exceeds \<open>FLT_MAX\<close>.
  Expressions are evaluated in binary32, operation by operation: no excess precision
  and no fused multiply-add.
\<close>

datatype float32 = Fin real | PInf | NInf | NaN

definition FLT_MAX :: real where
  "FLT_MAX = (2 - 1 / 2 ^ 23) * 2 ^ 127"

text \<open>The binary exponent \<open>e\<close> of a non-zero real: \<open>2 powi e \<le> \<bar>x\<bar> < 2 powi (e + 1)\<close>.\<close>

definition fexp :: "real \<Rightarrow> int" where
  "fexp x = (if 1 \<le> \<bar>x\<bar> then bitlen \<lfloor>\<bar>x\<bar>\<rfloor> - 1 else - bitlen (\<lceil>1 / \<bar>x\<bar>\<rceil> - 1))"

text \<open>Rounding a real to the nearest integer, ties to the even one.\<close>

definition rne :: "real \<Rightarrow> int" where
  "rne y = (let f = \<lfloor>y\<rfloor>; r = y - of_int f
            in if r < 1 / 2 then f else if 1 / 2 < r then f + 1
               else if even f then f else f + 1)"

text \<open>
  The spacing of binary32 values around \<open>x\<close>: 24 significant bits, and the fixed
  spacing \<open>2 powi (-149)\<close> of the subnormal range below \<open>2 powi (-126)\<close>.
\<close>

definition quantum :: "real \<Rightarrow> real" where
  "quantum x = 2 powi (max (fexp x) (- 126) - 23)"

definition fl :: "real \<Rightarrow> real" where
  "fl x = (if x = 0 then 0 else quantum x * of_int (rne (x / quantum x)))"

definition rnd :: "real \<Rightarrow> float32" where
  "rnd x = (let y = fl x in if FLT_MAX < y then PInf else if y < - FLT_MAX then NInf else Fin y)"

text \<open>A finite value that binary32 holds exactly.\<close>

fun finite32 :: "float32 \<Rightarrow> bool" where
  "finite32 (Fin x) = (fl x = x \<and> \<bar>x\<bar> \<le> FLT_MAX)"
| "finite32 PInf = False"
| "finite32 NInf = False"
| "finite32 NaN = False"

fun fneg :: "float32 \<Rightarrow> float32" where
  "fneg (Fin x) = Fin (- x)"
| "fneg PInf = NInf"
| "fneg NInf = PInf"
| "fneg NaN = NaN"

fun fadd :: "float32 \<Rightarrow> float32 \<Rightarrow> float32" where
  "fadd (Fin x) (Fin y) = rnd (x + y)"
| "fadd (Fin x) PInf = PInf"
| "fadd (Fin x) NInf = NInf"
| "fadd (Fin x) NaN = NaN"
| "fadd PInf (Fin y) = PInf"
| "fadd PInf PInf = PInf"
| "fadd PInf NInf = NaN"
| "fadd PInf NaN = NaN"
| "fadd NInf (Fin y) = NInf"
| "fadd NInf PInf = NaN"
| "fadd NInf NInf = NInf"
| "fadd NInf NaN = NaN"
| "fadd NaN b = NaN"

definition fsub :: "float32 \<Rightarrow> float32 \<Rightarrow> float32" where
  "fsub a b = fadd a (fneg b)"

text \<open>The product of an infinity and a finite value: NaN at zero, else the sign rule.\<close>

definition inf_times :: "bool \<Rightarrow> real \<Rightarrow> float32" where
  "inf_times pos y = (if y = 0 then NaN else if (0 < y) = pos then PInf else NInf)"

fun fmul :: "float32 \<Rightarrow> float32 \<Rightarrow> float32" where
  "fmul (Fin x) (Fin y) = rnd (x * y)"
| "fmul (Fin x) PInf = inf_times True x"
| "fmul (Fin x) NInf = inf_times False x"
| "fmul (Fin x) NaN = NaN"
| "fmul PInf (Fin y) = inf_times True y"
| "fmul PInf PInf = PInf"
| "fmul PInf NInf = NInf"
| "fmul PInf NaN = NaN"
| "fmul NInf (Fin y) = inf_times False y"
| "fmul NInf PInf = NInf"
| "fmul NInf NInf = PInf"
| "fmul NInf NaN = NaN"
| "fmul NaN b = NaN"

text \<open>\<open>a <= b\<close> on floats: false as soon as one side is a NaN.\<close>

fun fle :: "float32 \<Rightarrow> float32 \<Rightarrow> bool" where
  "fle (Fin x) (Fin y) = (x \<le> y)"
| "fle (Fin x) PInf = True"
| "fle (Fin x) NInf = False"
| "fle PInf PInf = True"
| "fle PInf b = False"
| "fle NInf NaN = False"
| "fle NInf b = True"
| "fle a NaN = False"
| "fle NaN b = False"

section \<open>Errors\<close>

text \<open>
  \<open>GP_ASSERT\<close> is \<open>assert\<close> and \<open>GP_ERROR\<close> logs and ends the process: both end the
  operation, as \<open>AssertFailed\<close> and \<open>Fatal\<close>. \<open>Undefined\<close> marks an execution that the
  C++ language leaves undefined (a union member read that is not the member last
  written, a read or write outside a live array, \<open>delete[]\<close> of something that
  \<open>new[]\<close> did not return, a float-to-int conversion out of range): the model follows
  the code no further than that point.
\<close>

datatype error = AssertFailed string | Fatal string | Undefined string

definition andThen :: "error + 'a \<Rightarrow> ('a \<Rightarrow> error + 'b) \<Rightarrow> error + 'b" where
  "andThen m f = (case m of Inl e \<Rightarrow> Inl e | Inr x \<Rightarrow> f x)"

section \<open>Conversions between int and float\<close>

text \<open>The C++ conversion from \<open>int\<close> to \<open>float\<close> rounds to the nearest float.\<close>

definition float_of_int :: "32 word \<Rightarrow> float32" where
  "float_of_int i = rnd (real_of_int (sint i))"

definition trunc_toward_zero :: "real \<Rightarrow> int" where
  "trunc_toward_zero x = (if 0 \<le> x then \<lfloor>x\<rfloor> else \<lceil>x\<rceil>)"

text \<open>
  The C++ conversion from \<open>float\<close> to \<open>int\<close> discards the fractional part; it is
  undefined when the truncated value is not an \<open>int\<close>.
\<close>

fun int_of_float :: "float32 \<Rightarrow> error + 32 word" where
  "int_of_float (Fin x) =
     (if - (2 ^ 31) \<le> trunc_toward_zero x \<and> trunc_toward_zero x < 2 ^ 31 then Inr (word_of_int (trunc_toward_zero x))
      else Inl (Undefined ''float to int conversion out of range''))"
| "int_of_float a = Inl (Undefined ''float to int conversion out of range'')"

text \<open>
  Modelled from the spec: \<open>Curve::lerp\<close>, whose source file is not among the sources;
  the spec gives \<open>lerp(t, a, b) = a + t*(b-a)\<close>, here in float arithmetic.
\<close>

definition lerp :: "float32 \<Rightarrow> float32 \<Rightarrow> float32 \<Rightarrow> float32" where
  "lerp t a b = fadd a (fmul t (fsub b a))"

section \<open>The store\<close>

text \<open>
  Addresses are natural numbers, \<open>0\<close> is the null pointer. The store holds the live
  float and int arrays, which of them came from \<open>new[]\<close> (\<open>owned\<close>), the live
  reference-counted objects (\<open>Texture::Sampler\<close> and method bindings, both derived from
  \<open>Ref\<close>) with their counts, and a trace of what the allocation-tracking harness of the
  spec would see, together with the calls made on the effect.
\<close>

type_synonym addr = nat

record uniform =
  u_name :: string
  u_effect :: addr

datatype upload =
    UFloat float32
  | UFloats addr "32 word"
  | UInt "32 word"
  | UInts addr "32 word"
  | UVector2s addr "32 word"
  | UVector3s addr "32 word"
  | UVector4s addr "32 word"
  | UMatrices addr "32 word"
  | USampler addr

datatype event =
    NewArray addr nat
  | DeleteArray addr
  | NewRef addr
  | AddRef addr
  | Release addr
  | DeleteRef addr
  | Warning string string
  | EffectSetValue uniform upload
  | MethodSetValue addr addr

text \<open>
  The member functions of \<open>Node\<close> that a parameter can be bound to, and the result
  type the binding is instantiated with.
\<close>

datatype accessor =
    GetBackVector | GetDownVector | GetTranslationWorld | GetTranslationView
  | GetForwardVector | GetForwardVectorWorld | GetForwardVectorView
  | GetLeftVector | GetRightVector | GetRightVectorWorld
  | GetUpVector | GetUpVectorWorld
  | GetActiveCameraTranslationWorld | GetActiveCameraTranslationView
  | GetScaleX | GetScaleY | GetScaleZ
  | GetTranslationX | GetTranslationY | GetTranslationZ

datatype rtype = RVector3 | RFloat

record method_binding =
  b_node :: addr
  b_accessor :: accessor
  b_rtype :: rtype

record heap =
  floats :: "addr \<Rightarrow> float32 list option"
  ints :: "addr \<Rightarrow> 32 word list option"
  owned :: "addr set"
  refs :: "addr \<Rightarrow> nat option"
  bindings :: "addr \<Rightarrow> method_binding option"
  brk :: addr
  trace :: "event list"

text \<open>
  \<open>new float[n]\<close> filled by \<open>memcpy\<close>: a fresh array, owned by whoever called.
  Allocation is taken to succeed.
\<close>

definition new_floats :: "float32 list \<Rightarrow> heap \<Rightarrow> addr \<times> heap" where
  "new_floats xs h =
     (brk h, h\<lparr>floats := (floats h)(brk h \<mapsto> xs), owned := insert (brk h) (owned h),
               brk := Suc (brk h), trace := trace h @ [NewArray (brk h) (length xs)]\<rparr>)"

definition delete_floats :: "addr \<Rightarrow> heap \<Rightarrow> error + heap" where
  "delete_floats a h =
     (if a \<in> owned h \<and> floats h a \<noteq> None
      then Inr (h\<lparr>floats := (floats h)(a := None), owned := owned h - {a},
                   trace := trace h @ [DeleteArray a]\<rparr>)
      else Inl (Undefined ''delete[] of a float array that new[] did not return''))"

definition delete_ints :: "addr \<Rightarrow> heap \<Rightarrow> error + heap" where
  "delete_ints a h =
     (if a \<in> owned h \<and> ints h a \<noteq> None
      then Inr (h\<lparr>ints := (ints h)(a := None), owned := owned h - {a},
                   trace := trace h @ [DeleteArray a]\<rparr>)
      else Inl (Undefined ''delete[] of an int array that new[] did not return''))"

text \<open>\<open>Ref::addRef\<close> and \<open>Ref::release\<close>; the object is deleted when its count reaches 0.\<close>

definition addRef :: "addr \<Rightarrow> heap \<Rightarrow> error + heap" where
  "addRef a h =
     (case refs h a of
        None \<Rightarrow> Inl (Undefined ''addRef on a dead object'')
      | Some n \<Rightarrow> Inr (h\<lparr>refs := (refs h)(a \<mapsto> Suc n), trace := trace h @ [AddRef a]\<rparr>))"

definition release :: "addr \<Rightarrow> heap \<Rightarrow> error + heap" where
  "release a h =
     (case refs h a of
        None \<Rightarrow> Inl (Undefined ''release on a dead object'')
      | Some n \<Rightarrow>
          if n \<le> 1
          then Inr (h\<lparr>refs := (refs h)(a := None), bindings := (bindings h)(a := None),
                       trace := trace h @ [Release a, DeleteRef a]\<rparr>)
          else Inr (h\<lparr>refs := (refs h)(a \<mapsto> n - 1), trace := trace h @ [Release a]\<rparr>))"

text \<open>The macros \<open>SAFE_DELETE_ARRAY\<close> and \<open>SAFE_RELEASE\<close>: nothing on a null pointer.\<close>

definition safe_delete_floats :: "addr \<Rightarrow> heap \<Rightarrow> error + heap" where
  "safe_delete_floats a h = (if a = 0 then Inr h else delete_floats a h)"

definition safe_delete_ints :: "addr \<Rightarrow> heap \<Rightarrow> error + heap" where
  "safe_delete_ints a h = (if a = 0 then Inr h else delete_ints a h)"

definition safe_release :: "addr \<Rightarrow> heap \<Rightarrow> error + heap" where
  "safe_release a h = (if a = 0 then Inr h else release a h)"

section \<open>The value cell\<close>

text \<open>
  The kinds of the enumeration \<open>MaterialParameter::Type\<close> that the source file names.
  \<open>INT'\<close> is the enumerator \<open>INT\<close>, a word that Isabelle's syntax reserves.
\<close>

datatype ptype = NONE | FLOAT | INT' | VECTOR2 | VECTOR3 | VECTOR4 | MATRIX | SAMPLER | METHOD

text \<open>
  The union \<open>_value\<close>: the member last written, or all bytes zero after \<open>memset\<close>.
  Zero bytes read as \<open>0.0f\<close>, \<open>0\<close> and the null pointer through every member; any other
  read of a member that was not the one written is undefined.
\<close>

datatype uvalue =
    Zeroed
  | FloatValue float32
  | IntValue "32 word"
  | FloatPtrValue addr
  | IntPtrValue addr
  | SamplerValue addr
  | MethodValue addr

definition punned :: error where
  "punned = Undefined ''read of a union member that was not the one written''"

fun floatValue_of :: "uvalue \<Rightarrow> error + float32" where
  "floatValue_of Zeroed = Inr (Fin 0)"
| "floatValue_of (FloatValue f) = Inr f"
| "floatValue_of v = Inl punned"

fun intValue_of :: "uvalue \<Rightarrow> error + 32 word" where
  "intValue_of Zeroed = Inr 0"
| "intValue_of (IntValue i) = Inr i"
| "intValue_of v = Inl punned"

fun floatPtrValue_of :: "uvalue \<Rightarrow> error + addr" where
  "floatPtrValue_of Zeroed = Inr 0"
| "floatPtrValue_of (FloatPtrValue a) = Inr a"
| "floatPtrValue_of v = Inl punned"

fun intPtrValue_of :: "uvalue \<Rightarrow> error + addr" where
  "intPtrValue_of Zeroed = Inr 0"
| "intPtrValue_of (IntPtrValue a) = Inr a"
| "intPtrValue_of v = Inl punned"

fun samplerValue_of :: "uvalue \<Rightarrow> error + addr" where
  "samplerValue_of Zeroed = Inr 0"
| "samplerValue_of (SamplerValue a) = Inr a"
| "samplerValue_of v = Inl punned"

fun method_of :: "uvalue \<Rightarrow> error + addr" where
  "method_of Zeroed = Inr 0"
| "method_of (MethodValue a) = Inr a"
| "method_of v = Inl punned"

record parameter =
  m_type :: ptype
  m_count :: "32 word"
  m_dynamic :: bool
  m_name :: string
  m_uniform :: "uniform option"
  m_value :: uvalue

text \<open>
  \<open>MaterialParameter::clearValue\<close>. The count is reset only on the branch that frees
  dynamic storage.
\<close>

definition clearValue :: "parameter \<Rightarrow> heap \<Rightarrow> error + parameter \<times> heap" where
  "clearValue p h =
     andThen
       (if m_dynamic p then
          andThen
            (case m_type p of
               FLOAT \<Rightarrow> andThen (floatPtrValue_of (m_value p)) (\<lambda>a. safe_delete_floats a h)
             | VECTOR2 \<Rightarrow> andThen (floatPtrValue_of (m_value p)) (\<lambda>a. safe_delete_floats a h)
             | VECTOR3 \<Rightarrow> andThen (floatPtrValue_of (m_value p)) (\<lambda>a. safe_delete_floats a h)
             | VECTOR4 \<Rightarrow> andThen (floatPtrValue_of (m_value p)) (\<lambda>a. safe_delete_floats a h)
             | MATRIX \<Rightarrow> andThen (floatPtrValue_of (m_value p)) (\<lambda>a. safe_delete_floats a h)
             | INT' \<Rightarrow> andThen (intPtrValue_of (m_value p)) (\<lambda>a. safe_delete_ints a h)
             | METHOD \<Rightarrow> andThen (method_of (m_value p)) (\<lambda>m. safe_release m h)
             | _ \<Rightarrow> Inr h)
            (\<lambda>h'. Inr (p\<lparr>m_dynamic := False, m_count := 1\<rparr>, h'))
        else
          andThen
            (case m_type p of
               SAMPLER \<Rightarrow>
                 andThen (samplerValue_of (m_value p))
                   (\<lambda>s. if s \<noteq> 0 then release s h else Inr h)
             | _ \<Rightarrow> Inr h)
            (\<lambda>h'. Inr (p, h')))
       (\<lambda>(p', h'). Inr (p'\<lparr>m_value := Zeroed, m_type := NONE\<rparr>, h'))"

text \<open>
  The constructor \<open>MaterialParameter(name)\<close>: the initialisers, then \<open>clearValue\<close>,
  which on kind \<open>NONE\<close> without dynamic storage only zeroes the union.
\<close>

definition MaterialParameter :: "string option \<Rightarrow> parameter" where
  "MaterialParameter name =
     \<lparr>m_type = NONE, m_count = 1, m_dynamic = False,
      m_name = (case name of Some n \<Rightarrow> n | None \<Rightarrow> []), m_uniform = None,
      m_value = Zeroed\<rparr>"

section \<open>The typed setters\<close>

text \<open>
  An argument passed by reference (\<open>const Vector3&\<close>) is an object of the caller's
  (\<open>Temp\<close>, its floats) or, in \<open>cloneInto\<close>, the start of an array of the store
  (\<open>At\<close>): it is read when \<open>memcpy\<close> runs, after \<open>clearValue\<close>.
\<close>

datatype vref = Temp "float32 list" | At addr

definition resolve_floats :: "addr \<Rightarrow> heap \<Rightarrow> error + float32 list" where
  "resolve_floats a h =
     (case floats h a of
        None \<Rightarrow> Inl (Undefined ''access to an address that holds no live float array'')
      | Some xs \<Rightarrow> Inr xs)"

definition resolve_ints :: "addr \<Rightarrow> heap \<Rightarrow> error + 32 word list" where
  "resolve_ints a h =
     (case ints h a of
        None \<Rightarrow> Inl (Undefined ''access to an address that holds no live int array'')
      | Some xs \<Rightarrow> Inr xs)"

definition read_floats_at :: "nat \<Rightarrow> vref \<Rightarrow> heap \<Rightarrow> error + float32 list" where
  "read_floats_at n r h =
     andThen (case r of Temp xs \<Rightarrow> Inr xs | At a \<Rightarrow> resolve_floats a h)
       (\<lambda>xs. if n \<le> length xs then Inr (take n xs)
             else Inl (Undefined ''read past the end of an object''))"

definition write_floats :: "addr \<Rightarrow> float32 list \<Rightarrow> heap \<Rightarrow> error + heap" where
  "write_floats a ys h =
     andThen (resolve_floats a h)
       (\<lambda>xs. if length ys \<le> length xs
             then Inr (h\<lparr>floats := (floats h)(a \<mapsto> ys @ drop (length ys) xs)\<rparr>)
             else Inl (Undefined ''write past the end of a float array''))"

definition setValue_float :: "float32 \<Rightarrow> parameter \<Rightarrow> heap \<Rightarrow> error + parameter \<times> heap" where
  "setValue_float v p h =
     andThen (clearValue p h)
       (\<lambda>(p1, h1). Inr (p1\<lparr>m_value := FloatValue v, m_type := FLOAT\<rparr>, h1))"

definition setValue_int :: "32 word \<Rightarrow> parameter \<Rightarrow> heap \<Rightarrow> error + parameter \<times> heap" where
  "setValue_int v p h =
     andThen (clearValue p h)
       (\<lambda>(p1, h1). Inr (p1\<lparr>m_value := IntValue v, m_type := INT'\<rparr>, h1))"

definition setValue_floats ::
  "addr \<Rightarrow> 32 word \<Rightarrow> parameter \<Rightarrow> heap \<Rightarrow> error + parameter \<times> heap" where
  "setValue_floats values n p h =
     andThen (clearValue p h)
       (\<lambda>(p1, h1). Inr (p1\<lparr>m_value := FloatPtrValue values, m_count := n, m_type := FLOAT\<rparr>, h1))"

definition setValue_ints ::
  "addr \<Rightarrow> 32 word \<Rightarrow> parameter \<Rightarrow> heap \<Rightarrow> error + parameter \<times> heap" where
  "setValue_ints values n p h =
     andThen (clearValue p h)
       (\<lambda>(p1, h1). Inr (p1\<lparr>m_value := IntPtrValue values, m_count := n, m_type := INT'\<rparr>, h1))"

text \<open>
  The three single-vector setters differ in the number of floats and the kind only:
  \<open>clearValue\<close>, \<open>new float[k]\<close>, \<open>memcpy\<close>, then the four assignments.
\<close>

definition set_vector ::
  "nat \<Rightarrow> ptype \<Rightarrow> vref \<Rightarrow> parameter \<Rightarrow> heap \<Rightarrow> error + parameter \<times> heap" where
  "set_vector k t r p h =
     andThen (clearValue p h)
       (\<lambda>(p1, h1). andThen (read_floats_at k r h1)
          (\<lambda>xs. case new_floats xs h1 of
                   (a, h2) \<Rightarrow>
                     Inr (p1\<lparr>m_value := FloatPtrValue a, m_dynamic := True, m_count := 1,
                             m_type := t\<rparr>, h2)))"

definition setValue_Vector2 :: "vref \<Rightarrow> parameter \<Rightarrow> heap \<Rightarrow> error + parameter \<times> heap" where
  "setValue_Vector2 r p h = set_vector 2 VECTOR2 r p h"

definition setValue_Vector3 :: "vref \<Rightarrow> parameter \<Rightarrow> heap \<Rightarrow> error + parameter \<times> heap" where
  "setValue_Vector3 r p h = set_vector 3 VECTOR3 r p h"

definition setValue_Vector4 :: "vref \<Rightarrow> parameter \<Rightarrow> heap \<Rightarrow> error + parameter \<times> heap" where
  "setValue_Vector4 r p h = set_vector 4 VECTOR4 r p h"

text \<open>The array setters of vectors and matrices: the assertion, then the pointer is kept.\<close>

definition set_array ::
  "ptype \<Rightarrow> addr \<Rightarrow> 32 word \<Rightarrow> parameter \<Rightarrow> heap \<Rightarrow> error + parameter \<times> heap" where
  "set_array t values n p h =
     (if values = 0 then Inl (AssertFailed ''values'')
      else andThen (clearValue p h)
             (\<lambda>(p1, h1). Inr (p1\<lparr>m_value := FloatPtrValue values, m_count := n,
                                  m_type := t\<rparr>, h1)))"

definition setValue_Vector2s ::
  "addr \<Rightarrow> 32 word \<Rightarrow> parameter \<Rightarrow> heap \<Rightarrow> error + parameter \<times> heap" where
  "setValue_Vector2s values n p h = set_array VECTOR2 values n p h"

definition setValue_Vector3s ::
  "addr \<Rightarrow> 32 word \<Rightarrow> parameter \<Rightarrow> heap \<Rightarrow> error + parameter \<times> heap" where
  "setValue_Vector3s values n p h = set_array VECTOR3 values n p h"

definition setValue_Vector4s ::
  "addr \<Rightarrow> 32 word \<Rightarrow> parameter \<Rightarrow> heap \<Rightarrow> error + parameter \<times> heap" where
  "setValue_Vector4s values n p h = set_array VECTOR4 values n p h"

definition setValue_Matrices ::
  "addr \<Rightarrow> 32 word \<Rightarrow> parameter \<Rightarrow> heap \<Rightarrow> error + parameter \<times> heap" where
  "setValue_Matrices values n p h = set_array MATRIX values n p h"

text \<open>
  \<open>setValue(const Matrix&)\<close>: a parameter that already owns a single matrix is
  overwritten in place.
\<close>

definition setValue_Matrix :: "vref \<Rightarrow> parameter \<Rightarrow> heap \<Rightarrow> error + parameter \<times> heap" where
  "setValue_Matrix r p h =
     andThen
       (if m_dynamic p \<and> m_count p = 1 \<and> m_type p = MATRIX
        then andThen (floatPtrValue_of (m_value p)) (\<lambda>a. Inr (a \<noteq> 0))
        else Inr False)
       (\<lambda>reuse.
          andThen
            (if reuse
             then andThen (read_floats_at 16 r h)
                    (\<lambda>xs. andThen (floatPtrValue_of (m_value p))
                       (\<lambda>a. andThen (write_floats a xs h) (\<lambda>h1. Inr (p, h1))))
             else andThen (clearValue p h)
                    (\<lambda>(p1, h1). andThen (read_floats_at 16 r h1)
                       (\<lambda>xs. case new_floats xs h1 of
                                (a, h2) \<Rightarrow> Inr (p1\<lparr>m_value := FloatPtrValue a\<rparr>, h2))))
            (\<lambda>(p2, h2). Inr (p2\<lparr>m_dynamic := True, m_count := 1, m_type := MATRIX\<rparr>, h2)))"

definition setValue_Sampler :: "addr \<Rightarrow> parameter \<Rightarrow> heap \<Rightarrow> error + parameter \<times> heap" where
  "setValue_Sampler sampler p h =
     andThen (clearValue p h)
       (\<lambda>(p1, h1).
          if sampler \<noteq> 0
          then andThen (addRef sampler h1)
                 (\<lambda>h2. Inr (p1\<lparr>m_value := SamplerValue sampler, m_type := SAMPLER\<rparr>, h2))
          else Inr (p1, h1))"

text \<open>
  \<open>setValue(const char* texturePath, bool generateMipmaps)\<close>. Whether
  \<open>Texture::Sampler::create\<close> yields a sampler is the caller's \<open>created\<close>; a new sampler
  has reference count 1. The result also carries the pointer returned.
\<close>

definition setValue_texture ::
  "string option \<Rightarrow> bool \<Rightarrow> bool \<Rightarrow> parameter \<Rightarrow> heap \<Rightarrow> error + addr \<times> parameter \<times> heap" where
  "setValue_texture texturePath generateMipmaps created p h =
     (case texturePath of
        None \<Rightarrow> Inr (0, p, h)
      | Some path \<Rightarrow>
          andThen (clearValue p h)
            (\<lambda>(p1, h1).
               if created
               then Inr (brk h1, p1\<lparr>m_value := SamplerValue (brk h1), m_type := SAMPLER\<rparr>,
                         h1\<lparr>refs := (refs h1)(brk h1 \<mapsto> 1), brk := Suc (brk h1),
                            trace := trace h1 @ [NewRef (brk h1)]\<rparr>)
               else Inr (0, p1, h1)))"

section \<open>Binding to an effect\<close>

record effect =
  e_addr :: addr
  e_id :: string
  e_uniforms :: "string \<Rightarrow> uniform option"

text \<open>The switch of \<open>bind\<close>: the one call made on the effect for the cell's kind.\<close>

definition upload_value :: "uniform \<Rightarrow> effect \<Rightarrow> parameter \<Rightarrow> error + event" where
  "upload_value u e p =
     (case m_type p of
        FLOAT \<Rightarrow>
          if m_count p = 1
          then andThen (floatValue_of (m_value p)) (\<lambda>f. Inr (EffectSetValue u (UFloat f)))
          else andThen (floatPtrValue_of (m_value p))
                 (\<lambda>a. Inr (EffectSetValue u (UFloats a (m_count p))))
      | INT' \<Rightarrow>
          if m_count p = 1
          then andThen (intValue_of (m_value p)) (\<lambda>i. Inr (EffectSetValue u (UInt i)))
          else andThen (intPtrValue_of (m_value p))
                 (\<lambda>a. Inr (EffectSetValue u (UInts a (m_count p))))
      | VECTOR2 \<Rightarrow>
          andThen (floatPtrValue_of (m_value p))
            (\<lambda>a. Inr (EffectSetValue u (UVector2s a (m_count p))))
      | VECTOR3 \<Rightarrow>
          andThen (floatPtrValue_of (m_value p))
            (\<lambda>a. Inr (EffectSetValue u (UVector3s a (m_count p))))
      | VECTOR4 \<Rightarrow>
          andThen (floatPtrValue_of (m_value p))
            (\<lambda>a. Inr (EffectSetValue u (UVector4s a (m_count p))))
      | MATRIX \<Rightarrow>
          andThen (floatPtrValue_of (m_value p))
            (\<lambda>a. Inr (EffectSetValue u (UMatrices a (m_count p))))
      | SAMPLER \<Rightarrow>
          andThen (samplerValue_of (m_value p)) (\<lambda>s. Inr (EffectSetValue u (USampler s)))
      | METHOD \<Rightarrow>
          andThen (method_of (m_value p))
            (\<lambda>m. if m = 0 then Inl (AssertFailed ''_value.method'')
                  else Inr (MethodSetValue m (e_addr e)))
      | NONE \<Rightarrow> Inl (Fatal ''Unsupported material parameter type''))"

text \<open>
  The lookup \<open>bind\<close> makes when it has no uniform cached for this effect: a miss is a
  warning and nothing more, a hit is cached and uploaded to.
\<close>

definition bind_lookup :: "effect \<Rightarrow> parameter \<Rightarrow> heap \<Rightarrow> error + parameter \<times> heap" where
  "bind_lookup e p h =
     (case e_uniforms e (m_name p) of
        None \<Rightarrow>
          Inr (p\<lparr>m_uniform := None\<rparr>, h\<lparr>trace := trace h @ [Warning (m_name p) (e_id e)]\<rparr>)
      | Some u \<Rightarrow>
          andThen (upload_value u e (p\<lparr>m_uniform := Some u\<rparr>))
            (\<lambda>ev. Inr (p\<lparr>m_uniform := Some u\<rparr>, h\<lparr>trace := trace h @ [ev]\<rparr>)))"

definition bind :: "effect option \<Rightarrow> parameter \<Rightarrow> heap \<Rightarrow> error + parameter \<times> heap" where
  "bind eo p h =
     (case eo of
        None \<Rightarrow> Inl (AssertFailed ''effect'')
      | Some e \<Rightarrow>
          (case m_uniform p of
             None \<Rightarrow> bind_lookup e p h
           | Some u \<Rightarrow>
               if u_effect u \<noteq> e_addr e then bind_lookup e p h
               else andThen (upload_value u e p)
                      (\<lambda>ev. Inr (p, h\<lparr>trace := trace h @ [ev]\<rparr>))))"

section \<open>Binding to a node accessor\<close>

text \<open>
  Modelled from the spec: the member template \<open>MaterialParameter::bindValue<ClassType,
  ParameterType>\<close> of the header, which is not among the sources. The spec has it
  install a computed binding that holds the node and the accessor and is sized by the
  accessor's declared arity; \<open>clearValue\<close>, \<open>bind\<close> and \<open>cloneInto\<close> show the binding as
  a reference-counted object in \<open>_value.method\<close>, of kind \<open>METHOD\<close>, released by
  \<open>clearValue\<close> on its dynamic branch.
\<close>

definition bindValue_method ::
  "rtype \<Rightarrow> addr \<Rightarrow> accessor \<Rightarrow> parameter \<Rightarrow> heap \<Rightarrow> error + parameter \<times> heap" where
  "bindValue_method t node acc p h =
     andThen (clearValue p h)
       (\<lambda>(p1, h1).
          Inr (p1\<lparr>m_value := MethodValue (brk h1), m_dynamic := True, m_type := METHOD\<rparr>,
               h1\<lparr>refs := (refs h1)(brk h1 \<mapsto> 1),
                  bindings := (bindings h1)(brk h1 \<mapsto>
                     \<lparr>b_node = node, b_accessor = acc, b_rtype = t\<rparr>),
                  brk := Suc (brk h1), trace := trace h1 @ [NewRef (brk h1)]\<rparr>))"

text \<open>The number of float channels of an accessor's result.\<close>

fun arity :: "rtype \<Rightarrow> nat" where
  "arity RVector3 = 3"
| "arity RFloat = 1"

definition bindValue ::
  "addr \<Rightarrow> string option \<Rightarrow> parameter \<Rightarrow> heap \<Rightarrow> error + parameter \<times> heap" where
  "bindValue node binding p h =
     (case binding of
        None \<Rightarrow> Inl (AssertFailed ''binding'')
      | Some b \<Rightarrow>
          if b = ''&Node::getBackVector'' then bindValue_method RVector3 node GetBackVector p h
          else if b = ''&Node::getDownVector'' then bindValue_method RVector3 node GetDownVector p h
          else if b = ''&Node::getTranslationWorld''
            then bindValue_method RVector3 node GetTranslationWorld p h
          else if b = ''&Node::getTranslationView''
            then bindValue_method RVector3 node GetTranslationView p h
          else if b = ''&Node::getForwardVector''
            then bindValue_method RVector3 node GetForwardVector p h
          else if b = ''&Node::getForwardVectorWorld''
            then bindValue_method RVector3 node GetForwardVectorWorld p h
          else if b = ''&Node::getForwardVectorView''
            then bindValue_method RVector3 node GetForwardVectorView p h
          else if b = ''&Node::getLeftVector'' then bindValue_method RVector3 node GetLeftVector p h
          else if b = ''&Node::getRightVector''
            then bindValue_method RVector3 node GetRightVector p h
          else if b = ''&Node::getRightVectorWorld''
            then bindValue_method RVector3 node GetRightVectorWorld p h
          else if b = ''&Node::getUpVector'' then bindValue_method RVector3 node GetUpVector p h
          else if b = ''&Node::getUpVectorWorld''
            then bindValue_method RVector3 node GetUpVectorWorld p h
          else if b = ''&Node::getActiveCameraTranslationWorld''
            then bindValue_method RVector3 node GetActiveCameraTranslationWorld p h
          else if b = ''&Node::getActiveCameraTranslationView''
            then bindValue_method RVector3 node GetActiveCameraTranslationView p h
          else if b = ''&Node::getScaleX'' then bindValue_method RFloat node GetScaleX p h
          else if b = ''&Node::getScaleY'' then bindValue_method RFloat node GetScaleY p h
          else if b = ''&Node::getScaleZ'' then bindValue_method RFloat node GetScaleZ p h
          else if b = ''&Node::getTranslationX''
            then bindValue_method RFloat node GetTranslationX p h
          else if b = ''&Node::getTranslationY''
            then bindValue_method RFloat node GetTranslationY p h
          else if b = ''&Node::getTranslationZ''
            then bindValue_method RFloat node GetTranslationZ p h
          else Inl (Fatal ''Unsupported material parameter binding''))"

text \<open>The names the chain of comparisons recognises, in its order.\<close>

definition binding_names :: "string list" where
  "binding_names =
     [''&Node::getBackVector'', ''&Node::getDownVector'', ''&Node::getTranslationWorld'',
      ''&Node::getTranslationView'', ''&Node::getForwardVector'',
      ''&Node::getForwardVectorWorld'', ''&Node::getForwardVectorView'',
      ''&Node::getLeftVector'', ''&Node::getRightVector'', ''&Node::getRightVectorWorld'',
      ''&Node::getUpVector'', ''&Node::getUpVectorWorld'',
      ''&Node::getActiveCameraTranslationWorld'', ''&Node::getActiveCameraTranslationView'',
      ''&Node::getScaleX'', ''&Node::getScaleY'', ''&Node::getScaleZ'',
      ''&Node::getTranslationX'', ''&Node::getTranslationY'', ''&Node::getTranslationZ'']"

section \<open>Animation\<close>

text \<open>
  The property id \<open>ANIMATE_UNIFORM\<close> is a constant of the header, which is not among
  the sources; it is the one id the three animation functions recognise.
\<close>

definition ANIMATE_UNIFORM :: int where
  "ANIMATE_UNIFORM = 1"

definition getAnimationPropertyComponentCount :: "int \<Rightarrow> parameter \<Rightarrow> 32 word" where
  "getAnimationPropertyComponentCount propertyId p =
     (if propertyId = ANIMATE_UNIFORM then
        (case m_type p of
           NONE \<Rightarrow> 0
         | MATRIX \<Rightarrow> 0
         | SAMPLER \<Rightarrow> 0
         | METHOD \<Rightarrow> 0
         | FLOAT \<Rightarrow> m_count p
         | INT' \<Rightarrow> m_count p
         | VECTOR2 \<Rightarrow> 2 * m_count p
         | VECTOR3 \<Rightarrow> 3 * m_count p
         | VECTOR4 \<Rightarrow> 4 * m_count p)
      else 0)"

text \<open>
  Modelled from the spec: the class \<open>AnimationValue\<close>, whose source file is not among
  the sources (only its Lua binding is). The spec describes it as a buffer of flat
  float channels with typed get and set entry points for a single channel and bulk
  variants taking a buffer and an offset and length pair. An \<open>AnimationValue\<close> is the
  list of its channels; an index past the end fails the accessors' assertion. The bulk
  setter copies \<open>len\<close> floats from the start of the given array to the channels from
  \<open>offset\<close> on; the properties below use it at offset 0 only, where no other reading
  of the offset differs. An animation value shares no storage with a parameter's
  arrays.
\<close>

definition getFloat :: "float32 list \<Rightarrow> nat \<Rightarrow> error + float32" where
  "getFloat av i = (if i < length av then Inr (av ! i) else Inl (AssertFailed ''index < _componentCount''))"

definition setFloat :: "float32 list \<Rightarrow> nat \<Rightarrow> float32 \<Rightarrow> error + float32 list" where
  "setFloat av i v =
     (if i < length av then Inr (av[i := v]) else Inl (AssertFailed ''index < _componentCount''))"

definition setFloats :: "float32 list \<Rightarrow> float32 list \<Rightarrow> nat \<Rightarrow> nat \<Rightarrow> error + float32 list" where
  "setFloats av src offset len =
     (if offset < length av \<and> offset + len \<le> length av
      then (if len \<le> length src
            then Inr (take offset av @ take len src @ drop (offset + len) av)
            else Inl (Undefined ''read past the end of a float array''))
      else Inl (AssertFailed ''offset + length <= _componentCount''))"

text \<open>The loops of \<open>getAnimationPropertyValue\<close>, from index \<open>i\<close> up to \<open>n\<close>.\<close>

function get_floats :: "nat \<Rightarrow> nat \<Rightarrow> float32 list \<Rightarrow> float32 list \<Rightarrow> error + float32 list" where
  "get_floats i n xs av =
     (if i < n then
        (if i < length xs then
           (case setFloat av i (xs ! i) of
              Inl e \<Rightarrow> Inl e
            | Inr av' \<Rightarrow> get_floats (Suc i) n xs av')
         else Inl (Undefined ''read past the end of a float array''))
      else Inr av)"
  by pat_completeness auto
termination
  by (relation "measure (\<lambda>(i, n, xs, av). n - i)") auto

function get_ints :: "nat \<Rightarrow> nat \<Rightarrow> 32 word list \<Rightarrow> float32 list \<Rightarrow> error + float32 list" where
  "get_ints i n xs av =
     (if i < n then
        (if i < length xs then
           (case setFloat av i (float_of_int (xs ! i)) of
              Inl e \<Rightarrow> Inl e
            | Inr av' \<Rightarrow> get_ints (Suc i) n xs av')
         else Inl (Undefined ''read past the end of an int array''))
      else Inr av)"
  by pat_completeness auto
termination
  by (relation "measure (\<lambda>(i, n, xs, av). n - i)") auto

text \<open>
  The loop of the vector kinds passes the start of the parameter's array and the
  offset \<open>i * k\<close> (an \<open>unsigned int\<close> product) on every round.
\<close>

function get_vectors ::
  "nat \<Rightarrow> nat \<Rightarrow> nat \<Rightarrow> error + float32 list \<Rightarrow> float32 list \<Rightarrow> error + float32 list" where
  "get_vectors i n k src av =
     (if i < n then
        (case src of
           Inl e \<Rightarrow> Inl e
         | Inr xs \<Rightarrow>
             (case setFloats av xs ((i * k) mod 2 ^ 32) k of
                Inl e \<Rightarrow> Inl e
              | Inr av' \<Rightarrow> get_vectors (Suc i) n k src av'))
      else Inr av)"
  by pat_completeness auto
termination
  by (relation "measure (\<lambda>(i, n, k, src, av). n - i)") auto

text \<open>The array a vector kind's pointer leads to; a null pointer fails the bulk setter's assertion.\<close>

definition vector_source :: "parameter \<Rightarrow> heap \<Rightarrow> error + float32 list" where
  "vector_source p h =
     andThen (floatPtrValue_of (m_value p))
       (\<lambda>a. if a = 0 then Inl (AssertFailed ''value'') else resolve_floats a h)"

definition getAnimationPropertyValue ::
  "int \<Rightarrow> float32 list option \<Rightarrow> parameter \<Rightarrow> heap \<Rightarrow> error + float32 list" where
  "getAnimationPropertyValue propertyId animationValue p h =
     (case animationValue of
        None \<Rightarrow> Inl (AssertFailed ''value'')
      | Some av \<Rightarrow>
          if propertyId = ANIMATE_UNIFORM then
            (case m_type p of
               FLOAT \<Rightarrow>
                 if m_count p = 1
                 then andThen (floatValue_of (m_value p)) (\<lambda>f. setFloat av 0 f)
                 else andThen (floatPtrValue_of (m_value p))
                        (\<lambda>a. if a = 0 then Inl (AssertFailed ''_value.floatPtrValue'')
                              else andThen (resolve_floats a h)
                                     (\<lambda>xs. get_floats 0 (unat (m_count p)) xs av))
             | INT' \<Rightarrow>
                 if m_count p = 1
                 then andThen (intValue_of (m_value p)) (\<lambda>i. setFloat av 0 (float_of_int i))
                 else andThen (intPtrValue_of (m_value p))
                        (\<lambda>a. if a = 0 then Inl (AssertFailed ''_value.intPtrValue'')
                              else andThen (resolve_ints a h)
                                     (\<lambda>xs. get_ints 0 (unat (m_count p)) xs av))
             | VECTOR2 \<Rightarrow> get_vectors 0 (unat (m_count p)) 2 (vector_source p h) av
             | VECTOR3 \<Rightarrow> get_vectors 0 (unat (m_count p)) 3 (vector_source p h) av
             | VECTOR4 \<Rightarrow> get_vectors 0 (unat (m_count p)) 4 (vector_source p h) av
             | _ \<Rightarrow> Inr av)
          else Inr av)"

text \<open>The loop of \<open>applyAnimationValue\<close>, and the same loop over an int array.\<close>

function blend_floats ::
  "nat \<Rightarrow> nat \<Rightarrow> float32 \<Rightarrow> float32 list \<Rightarrow> float32 list \<Rightarrow> error + float32 list" where
  "blend_floats i n w av xs =
     (if i < n then
        (if i < length xs then
           (case getFloat av i of
              Inl e \<Rightarrow> Inl e
            | Inr v \<Rightarrow> blend_floats (Suc i) n w av (xs[i := lerp w (xs ! i) v]))
         else Inl (Undefined ''access past the end of a float array''))
      else Inr xs)"
  by pat_completeness auto
termination
  by (relation "measure (\<lambda>(i, n, w, av, xs). n - i)") auto

function blend_ints ::
  "nat \<Rightarrow> nat \<Rightarrow> float32 \<Rightarrow> float32 list \<Rightarrow> 32 word list \<Rightarrow> error + 32 word list" where
  "blend_ints i n w av xs =
     (if i < n then
        (if i < length xs then
           (case getFloat av i of
              Inl e \<Rightarrow> Inl e
            | Inr v \<Rightarrow>
                (case int_of_float (lerp w (float_of_int (xs ! i)) v) of
                   Inl e \<Rightarrow> Inl e
                 | Inr z \<Rightarrow> blend_ints (Suc i) n w av (xs[i := z])))
         else Inl (Undefined ''access past the end of an int array''))
      else Inr xs)"
  by pat_completeness auto
termination
  by (relation "measure (\<lambda>(i, n, w, av, xs). n - i)") auto

definition applyAnimationValue ::
  "float32 list option \<Rightarrow> float32 \<Rightarrow> 32 word \<Rightarrow> parameter \<Rightarrow> heap \<Rightarrow> error + parameter \<times> heap" where
  "applyAnimationValue animationValue blendWeight components p h =
     (case animationValue of
        None \<Rightarrow> Inl (AssertFailed ''value'')
      | Some av \<Rightarrow>
          andThen (floatPtrValue_of (m_value p))
            (\<lambda>a. if a = 0 then Inl (AssertFailed ''_value.floatPtrValue'')
                  else andThen (resolve_floats a h)
                         (\<lambda>xs. andThen (blend_floats 0 (unat (m_count p * components)) blendWeight av xs)
                            (\<lambda>xs'. Inr (p, h\<lparr>floats := (floats h)(a \<mapsto> xs')\<rparr>)))))"

definition setAnimationPropertyValue ::
  "int \<Rightarrow> float32 list option \<Rightarrow> float32 \<Rightarrow> parameter \<Rightarrow> heap \<Rightarrow> error + parameter \<times> heap" where
  "setAnimationPropertyValue propertyId animationValue blendWeight p h =
     (case animationValue of
        None \<Rightarrow> Inl (AssertFailed ''value'')
      | Some av \<Rightarrow>
          if \<not> (fle (Fin 0) blendWeight \<and> fle blendWeight (Fin 1))
          then Inl (AssertFailed ''blendWeight >= 0.0f && blendWeight <= 1.0f'')
          else if propertyId = ANIMATE_UNIFORM then
            (case m_type p of
               FLOAT \<Rightarrow>
                 if m_count p = 1
                 then andThen (floatValue_of (m_value p))
                        (\<lambda>f. andThen (getFloat av 0)
                           (\<lambda>v. Inr (p\<lparr>m_value := FloatValue (lerp blendWeight f v)\<rparr>, h)))
                 else applyAnimationValue animationValue blendWeight 1 p h
             | INT' \<Rightarrow>
                 if m_count p = 1
                 then andThen (intValue_of (m_value p))
                        (\<lambda>i. andThen (getFloat av 0)
                           (\<lambda>v. andThen (int_of_float (lerp blendWeight (float_of_int i) v))
                              (\<lambda>z. Inr (p\<lparr>m_value := IntValue z\<rparr>, h))))
                 else andThen (intPtrValue_of (m_value p))
                        (\<lambda>a. if a = 0 then Inl (AssertFailed ''_value.intPtrValue'')
                              else andThen (resolve_ints a h)
                                     (\<lambda>xs. andThen (blend_ints 0 (unat (m_count p)) blendWeight av xs)
                                        (\<lambda>xs'. Inr (p, h\<lparr>ints := (ints h)(a \<mapsto> xs')\<rparr>))))
             | VECTOR2 \<Rightarrow> applyAnimationValue animationValue blendWeight 2 p h
             | VECTOR3 \<Rightarrow> applyAnimationValue animationValue blendWeight 3 p h
             | VECTOR4 \<Rightarrow> applyAnimationValue animationValue blendWeight 4 p h
             | _ \<Rightarrow> Inr (p, h))
          else Inr (p, h))"

section \<open>Cloning\<close>

text \<open>
  \<open>cloneInto\<close> reads the parameter it is called on and changes the one it is given,
  which the model takes to be another object. The result is the target.
\<close>

definition cloneInto :: "parameter \<Rightarrow> parameter option \<Rightarrow> heap \<Rightarrow> error + parameter \<times> heap" where
  "cloneInto this materialParameter h =
     (case materialParameter of
        None \<Rightarrow> Inl (AssertFailed ''materialParameter'')
      | Some mp0 \<Rightarrow>
          (let mp = mp0\<lparr>m_type := m_type this, m_count := m_count this,
                         m_dynamic := m_dynamic this, m_uniform := m_uniform this\<rparr>
           in case m_type this of
                NONE \<Rightarrow> Inr (mp, h)
              | FLOAT \<Rightarrow> andThen (floatValue_of (m_value this)) (\<lambda>f. setValue_float f mp h)
              | INT' \<Rightarrow> andThen (intValue_of (m_value this)) (\<lambda>i. setValue_int i mp h)
              | VECTOR2 \<Rightarrow>
                  andThen (floatPtrValue_of (m_value this))
                    (\<lambda>a. if m_count this = 1
                          then (if a = 0 then Inl (AssertFailed ''value'')
                                else setValue_Vector2 (At a) mp h)
                          else setValue_Vector2s a (m_count this) mp h)
              | VECTOR3 \<Rightarrow>
                  andThen (floatPtrValue_of (m_value this))
                    (\<lambda>a. if m_count this = 1
                          then (if a = 0 then Inl (AssertFailed ''value'')
                                else setValue_Vector3 (At a) mp h)
                          else setValue_Vector3s a (m_count this) mp h)
              | VECTOR4 \<Rightarrow>
                  andThen (floatPtrValue_of (m_value this))
                    (\<lambda>a. if m_count this = 1
                          then (if a = 0 then Inl (AssertFailed ''value'')
                                else setValue_Vector4 (At a) mp h)
                          else setValue_Vector4s a (m_count this) mp h)
              | MATRIX \<Rightarrow>
                  andThen (floatPtrValue_of (m_value this))
                    (\<lambda>a. if m_count this = 1
                          then (if a = 0 then Inl (AssertFailed ''value'')
                                else setValue_Matrix (At a) mp h)
                          else setValue_Matrices a (m_count this) mp h)
              | SAMPLER \<Rightarrow> andThen (samplerValue_of (m_value this)) (\<lambda>s. setValue_Sampler s mp h)
              | METHOD \<Rightarrow>
                  andThen (method_of (m_value this))
                    (\<lambda>m. if m = 0 then Inl (AssertFailed ''materialParameter->_value.method'')
                          else andThen (addRef m h)
                                 (\<lambda>h1. Inr (mp\<lparr>m_value := MethodValue m\<rparr>, h1)))))"

section \<open>Observations, well-formed cells and example states\<close>

text \<open>
  What follows is not code of \<open>MaterialParameter\<close>: it names the states and the
  observations that the properties below speak about.
\<close>

text \<open>The empty store; address \<open>0\<close> is never handed out.\<close>

definition heap0 :: heap where
  "heap0 = \<lparr>floats = (\<lambda>a. None), ints = (\<lambda>a. None), owned = {}, refs = (\<lambda>a. None),
            bindings = (\<lambda>a. None), brk = 1, trace = []\<rparr>"

text \<open>
  Invariant I1 of the spec, as far as \<open>clearValue\<close> relies on it: a cell flagged dynamic
  holds a pointer of its kind's member that is null or leads to an array that \<open>new[]\<close>
  returned (for kind \<open>METHOD\<close>, to a live binding), and a sampler cell holds a null or
  live sampler.
\<close>

definition owns_floats :: "uvalue \<Rightarrow> heap \<Rightarrow> bool" where
  "owns_floats v h =
     (case v of Zeroed \<Rightarrow> True
      | FloatPtrValue a \<Rightarrow> a = 0 \<or> (a \<in> owned h \<and> floats h a \<noteq> None)
      | _ \<Rightarrow> False)"

definition owns_ints :: "uvalue \<Rightarrow> heap \<Rightarrow> bool" where
  "owns_ints v h =
     (case v of Zeroed \<Rightarrow> True
      | IntPtrValue a \<Rightarrow> a = 0 \<or> (a \<in> owned h \<and> ints h a \<noteq> None)
      | _ \<Rightarrow> False)"

definition holds_method :: "uvalue \<Rightarrow> heap \<Rightarrow> bool" where
  "holds_method v h =
     (case v of Zeroed \<Rightarrow> True
      | MethodValue m \<Rightarrow> m = 0 \<or> refs h m \<noteq> None
      | _ \<Rightarrow> False)"

definition holds_sampler :: "uvalue \<Rightarrow> heap \<Rightarrow> bool" where
  "holds_sampler v h =
     (case v of Zeroed \<Rightarrow> True
      | SamplerValue s \<Rightarrow> s = 0 \<or> refs h s \<noteq> None
      | _ \<Rightarrow> False)"

definition cell_ok :: "parameter \<Rightarrow> heap \<Rightarrow> bool" where
  "cell_ok p h =
     (if m_dynamic p then
        (case m_type p of
           FLOAT \<Rightarrow> owns_floats (m_value p) h
         | VECTOR2 \<Rightarrow> owns_floats (m_value p) h
         | VECTOR3 \<Rightarrow> owns_floats (m_value p) h
         | VECTOR4 \<Rightarrow> owns_floats (m_value p) h
         | MATRIX \<Rightarrow> owns_floats (m_value p) h
         | INT' \<Rightarrow> owns_ints (m_value p) h
         | METHOD \<Rightarrow> holds_method (m_value p) h
         | _ \<Rightarrow> True)
      else
        (case m_type p of
           SAMPLER \<Rightarrow> holds_sampler (m_value p) h
         | _ \<Rightarrow> True))"

text \<open>The reference-counted object a cell holds a reference to, \<open>0\<close> for none.\<close>

definition held_ref :: "parameter \<Rightarrow> addr" where
  "held_ref p =
     (if m_dynamic p then
        (case m_type p of METHOD \<Rightarrow> (case m_value p of MethodValue m \<Rightarrow> m | _ \<Rightarrow> 0) | _ \<Rightarrow> 0)
      else
        (case m_type p of SAMPLER \<Rightarrow> (case m_value p of SamplerValue s \<Rightarrow> s | _ \<Rightarrow> 0) | _ \<Rightarrow> 0))"

text \<open>
  The parameter holds a uniform that was handed out by this very effect: the test by
  which \<open>bind\<close> decides to skip the lookup by name.
\<close>

definition cached_for :: "effect \<Rightarrow> parameter \<Rightarrow> bool" where
  "cached_for e p =
     (case m_uniform p of None \<Rightarrow> False | Some u \<Rightarrow> u_effect u = e_addr e)"

text \<open>
  What \<open>clearValue\<close> finds in a cell, following its own tests: an owned array when the
  ownership flag is set and the kind is a float kind or Int, a method binding when the
  flag is set and the kind is Method, a sampler when the flag is clear and the kind is
  Sampler, and nothing to give back otherwise (also when the pointer is null).
  \<open>Mismatched\<close> is a union member read after another one was written.
\<close>

datatype held = Nothing | OwnedFloats addr | OwnedInts addr | Reference addr | Mismatched

definition holding :: "parameter \<Rightarrow> held" where
  "holding p =
     (if m_dynamic p then
        (if m_type p \<in> {FLOAT, VECTOR2, VECTOR3, VECTOR4, MATRIX} then
           (case m_value p of
              Zeroed \<Rightarrow> Nothing
            | FloatPtrValue a \<Rightarrow> if a = 0 then Nothing else OwnedFloats a
            | _ \<Rightarrow> Mismatched)
         else if m_type p = INT' then
           (case m_value p of
              Zeroed \<Rightarrow> Nothing
            | IntPtrValue a \<Rightarrow> if a = 0 then Nothing else OwnedInts a
            | _ \<Rightarrow> Mismatched)
         else if m_type p = METHOD then
           (case m_value p of
              Zeroed \<Rightarrow> Nothing
            | MethodValue m \<Rightarrow> if m = 0 then Nothing else Reference m
            | _ \<Rightarrow> Mismatched)
         else Nothing)
      else
        (if m_type p = SAMPLER then
           (case m_value p of
              Zeroed \<Rightarrow> Nothing
            | SamplerValue s \<Rightarrow> if s = 0 then Nothing else Reference s
            | _ \<Rightarrow> Mismatched)
         else Nothing))"

definition example_effect :: effect where
  "example_effect =
     \<lparr>e_addr = 9, e_id = ''textured'',
      e_uniforms = (\<lambda>n. if n = ''u_diffuseColor''
                         then Some \<lparr>u_name = ''u_diffuseColor'', u_effect = 9\<rparr> else None)\<rparr>"

text \<open>
  The stored channels of a cell, as the animation functions address them: the scalar
  member when a Float or Int cell has count 1, else the first \<open>count * components\<close>
  elements of the array the pointer leads to. \<open>None\<close> when the payload is not of that
  shape.
\<close>

definition array_channels :: "32 word \<Rightarrow> parameter \<Rightarrow> heap \<Rightarrow> float32 list option" where
  "array_channels k p h =
     (case m_value p of
        FloatPtrValue a \<Rightarrow>
          if a = 0 then None
          else (case floats h a of
                  None \<Rightarrow> None
                | Some buf \<Rightarrow>
                    if unat (m_count p * k) \<le> length buf
                    then Some (take (unat (m_count p * k)) buf) else None)
      | _ \<Rightarrow> None)"

definition float_channels :: "parameter \<Rightarrow> heap \<Rightarrow> float32 list option" where
  "float_channels p h =
     (case m_type p of
        FLOAT \<Rightarrow>
          if m_count p = 1
          then (case m_value p of FloatValue f \<Rightarrow> Some [f] | _ \<Rightarrow> None)
          else array_channels 1 p h
      | VECTOR2 \<Rightarrow> array_channels 2 p h
      | VECTOR3 \<Rightarrow> array_channels 3 p h
      | VECTOR4 \<Rightarrow> array_channels 4 p h
      | _ \<Rightarrow> None)"

definition int_channels :: "parameter \<Rightarrow> heap \<Rightarrow> 32 word list option" where
  "int_channels p h =
     (case m_type p of
        INT' \<Rightarrow>
          if m_count p = 1
          then (case m_value p of IntValue i \<Rightarrow> Some [i] | _ \<Rightarrow> None)
          else (case m_value p of
                  IntPtrValue a \<Rightarrow>
                    if a = 0 then None
                    else (case ints h a of
                            None \<Rightarrow> None
                          | Some buf \<Rightarrow>
                              if unat (m_count p) \<le> length buf
                              then Some (take (unat (m_count p)) buf) else None)
                | _ \<Rightarrow> None)
      | _ \<Rightarrow> None)"

text \<open>
  Conditions on floats under which \<open>lerp\<close> at the weights 0 and 1 is exact: a value
  that is neither an infinity nor a NaN; a subtraction whose exact result is a float; an
  int that converts to float without rounding. \<open>trunc32\<close> and \<open>in_int_range\<close> spell out
  \<open>int_of_float\<close>.
\<close>

fun is_finite :: "float32 \<Rightarrow> bool" where
  "is_finite (Fin x) = True"
| "is_finite a = False"

fun exact_sub :: "float32 \<Rightarrow> float32 \<Rightarrow> bool" where
  "exact_sub (Fin y) (Fin x) = (rnd (y - x) = Fin (y - x))"
| "exact_sub b a = False"

definition int_exact :: "32 word \<Rightarrow> bool" where
  "int_exact i = (float_of_int i = Fin (real_of_int (sint i)))"

fun in_int_range :: "float32 \<Rightarrow> bool" where
  "in_int_range (Fin x) = (- (2 ^ 31) \<le> trunc_toward_zero x \<and> trunc_toward_zero x < 2 ^ 31)"
| "in_int_range a = False"

fun trunc32 :: "float32 \<Rightarrow> 32 word" where
  "trunc32 (Fin x) = word_of_int (trunc_toward_zero x)"
| "trunc32 a = 0"

text \<open>Example cells and stores.\<close>

definition sampler_cell :: parameter where
  "sampler_cell =
     \<lparr>m_type = SAMPLER, m_count = 1, m_dynamic = False, m_name = ''u_diffuseTexture'',
      m_uniform = None, m_value = SamplerValue 5\<rparr>"

definition sampler_heap :: heap where
  "sampler_heap = heap0\<lparr>refs := (refs heap0)(5 \<mapsto> 2), brk := 6\<rparr>"

definition weights_heap :: heap where
  "weights_heap = heap0\<lparr>floats := (floats heap0)(100 \<mapsto> [Fin 1, Fin 2, Fin 3]), brk := 101\<rparr>"

definition float_cell :: parameter where
  "float_cell =
     \<lparr>m_type = FLOAT, m_count = 1, m_dynamic = False, m_name = ''u_diffuseTexture'',
      m_uniform = None, m_value = FloatValue (Fin 1)\<rparr>"

definition vec3_cell :: parameter where
  "vec3_cell =
     \<lparr>m_type = VECTOR3, m_count = 1, m_dynamic = True, m_name = ''u_lightColor'',
      m_uniform = None, m_value = FloatPtrValue 100\<rparr>"

definition vec3_heap :: heap where
  "vec3_heap = heap0\<lparr>floats := (floats heap0)(100 \<mapsto> [Fin 1, Fin 2, Fin 3]),
                     owned := {100}, brk := 101\<rparr>"

definition int_cell :: "32 word \<Rightarrow> parameter" where
  "int_cell i =
     \<lparr>m_type = INT', m_count = 1, m_dynamic = False, m_name = ''u_mode'',
      m_uniform = None, m_value = IntValue i\<rparr>"

definition scalar_cell :: "float32 \<Rightarrow> parameter" where
  "scalar_cell f =
     \<lparr>m_type = FLOAT, m_count = 1, m_dynamic = False, m_name = ''u_alpha'',
      m_uniform = None, m_value = FloatValue f\<rparr>"

definition vec3_array_cell :: parameter where
  "vec3_array_cell =
     \<lparr>m_type = VECTOR3, m_count = 2, m_dynamic = False, m_name = ''u_lightColor'',
      m_uniform = None, m_value = FloatPtrValue 200\<rparr>"

definition vec3_array_heap :: heap where
  "vec3_array_heap =
     heap0\<lparr>floats := (floats heap0)(200 \<mapsto> [Fin 1, Fin 2, Fin 3, Fin 4, Fin 5, Fin 6]),
           brk := 201\<rparr>"

definition sole_sampler_heap :: heap where
  "sole_sampler_heap = heap0\<lparr>refs := (refs heap0)(5 \<mapsto> 1), brk := 6\<rparr>"

text \<open>
  An Int cell that owns its array. No setter of the class builds one (the array setter
  for ints borrows the caller's pointer), but \<open>clearValue\<close> has the branch that frees it.
\<close>

definition int_array_cell :: parameter where
  "int_array_cell =
     \<lparr>m_type = INT', m_count = 1, m_dynamic = True, m_name = ''u_modes'',
      m_uniform = None, m_value = IntPtrValue 300\<rparr>"

definition int_array_heap :: heap where
  "int_array_heap = heap0\<lparr>ints := (ints heap0)(300 \<mapsto> [7, 8]), owned := {300}, brk := 301\<rparr>"

definition diffuse_uniform :: uniform where
  "diffuse_uniform = \<lparr>u_name = ''u_diffuseColor'', u_effect = 9\<rparr>"

section \<open>Auxiliary facts\<close>

subsection \<open>Sequencing and \<open>clearValue\<close>\<close>

lemma andThen_Inr [simp]: "andThen (Inr x) f = f x"
  by (simp add: andThen_def)

lemma andThen_Inl [simp]: "andThen (Inl e) f = Inl e"
  by (simp add: andThen_def)

lemma andThen_eq_Inr:
  "andThen m f = Inr y \<longleftrightarrow> (\<exists>x. m = Inr x \<and> f x = Inr y)"
  by (cases m) simp_all

lemma safe_delete_floats_ok:
  "owns_floats v h \<Longrightarrow>
   \<exists>h'. andThen (floatPtrValue_of v) (\<lambda>a. safe_delete_floats a h) = Inr h' \<and> refs h' = refs h"
  by (cases v) (auto simp: owns_floats_def safe_delete_floats_def delete_floats_def)

lemma safe_delete_ints_ok:
  "owns_ints v h \<Longrightarrow>
   \<exists>h'. andThen (intPtrValue_of v) (\<lambda>a. safe_delete_ints a h) = Inr h' \<and> refs h' = refs h"
  by (cases v) (auto simp: owns_ints_def safe_delete_ints_def delete_ints_def)

lemma release_ok:
  "refs h a \<noteq> None \<Longrightarrow> \<exists>h'. release a h = Inr h' \<and> (\<forall>b. b \<noteq> a \<longrightarrow> refs h' b = refs h b)"
  by (auto simp: release_def)

lemma clearValue_ok:
  assumes "cell_ok p h"
  shows "\<exists>p' h'. clearValue p h = Inr (p', h') \<and> m_type p' = NONE \<and> m_value p' = Zeroed
           \<and> m_name p' = m_name p \<and> m_uniform p' = m_uniform p \<and> \<not> m_dynamic p'
           \<and> (\<forall>a. a \<noteq> held_ref p \<longrightarrow> refs h' a = refs h a)"
proof (cases "m_dynamic p")
  case True
  note dyn = this
  show ?thesis
  proof (cases "m_type p")
    case METHOD
    with dyn assms have hm: "holds_method (m_value p) h" by (simp add: cell_ok_def)
    show ?thesis
    proof (cases "m_value p")
      case (MethodValue m)
      show ?thesis
      proof (cases "m = 0")
        case True
        with dyn METHOD MethodValue show ?thesis
          by (simp add: clearValue_def safe_release_def)
      next
        case False
        with hm MethodValue have "refs h m \<noteq> None" by (simp add: holds_method_def)
        from release_ok[OF this] obtain h' where
          "release m h = Inr h'" "\<forall>b. b \<noteq> m \<longrightarrow> refs h' b = refs h b" by blast
        with dyn METHOD MethodValue False show ?thesis
          by (simp add: clearValue_def safe_release_def held_ref_def)
      qed
    qed (use hm dyn METHOD in \<open>simp_all add: holds_method_def clearValue_def safe_release_def\<close>)
  next
    case INT'
    with dyn assms have "owns_ints (m_value p) h" by (simp add: cell_ok_def)
    from safe_delete_ints_ok[OF this] dyn INT' show ?thesis
      by (auto simp: clearValue_def)
  qed (use dyn assms safe_delete_floats_ok[of "m_value p" h] in
        \<open>auto simp: clearValue_def cell_ok_def\<close>)
next
  case False
  note nd = this
  show ?thesis
  proof (cases "m_type p")
    case SAMPLER
    with nd assms have hs: "holds_sampler (m_value p) h" by (simp add: cell_ok_def)
    show ?thesis
    proof (cases "m_value p")
      case (SamplerValue s)
      show ?thesis
      proof (cases "s = 0")
        case True
        with nd SAMPLER SamplerValue show ?thesis by (simp add: clearValue_def)
      next
        case False
        with hs SamplerValue have "refs h s \<noteq> None" by (simp add: holds_sampler_def)
        from release_ok[OF this] obtain h' where
          "release s h = Inr h'" "\<forall>b. b \<noteq> s \<longrightarrow> refs h' b = refs h b" by blast
        with nd SAMPLER SamplerValue False show ?thesis
          by (simp add: clearValue_def held_ref_def)
      qed
    qed (use hs nd SAMPLER in \<open>simp_all add: holds_sampler_def clearValue_def\<close>)
  qed (use nd in \<open>simp_all add: clearValue_def\<close>)
qed


text \<open>
  The whole effect of \<open>clearValue\<close>, by what the cell holds: the cell becomes a zeroed,
  not owning cell of kind \<open>NONE\<close> (the count goes back to 1 only if the cell was owning),
  and the store gives back exactly what was held, once.
\<close>

lemma clearValue_holding:
  "(holding p = Nothing \<longrightarrow>
      clearValue p h
        = Inr (p\<lparr>m_dynamic := False, m_count := (if m_dynamic p then 1 else m_count p),
                 m_value := Zeroed, m_type := NONE\<rparr>, h))
   \<and> (holding p = Reference r \<and> refs h r = Some (Suc (Suc n)) \<longrightarrow>
      clearValue p h
        = Inr (p\<lparr>m_dynamic := False, m_count := (if m_dynamic p then 1 else m_count p),
                 m_value := Zeroed, m_type := NONE\<rparr>,
               h\<lparr>refs := (refs h)(r \<mapsto> Suc n), trace := trace h @ [Release r]\<rparr>))
   \<and> (holding p = Reference r \<and> refs h r = Some (Suc 0) \<longrightarrow>
      clearValue p h
        = Inr (p\<lparr>m_dynamic := False, m_count := (if m_dynamic p then 1 else m_count p),
                 m_value := Zeroed, m_type := NONE\<rparr>,
               h\<lparr>refs := (refs h)(r := None), bindings := (bindings h)(r := None),
                  trace := trace h @ [Release r, DeleteRef r]\<rparr>))
   \<and> (holding p = OwnedFloats a \<and> a \<in> owned h \<and> floats h a \<noteq> None \<longrightarrow>
      clearValue p h
        = Inr (p\<lparr>m_dynamic := False, m_count := (if m_dynamic p then 1 else m_count p),
                 m_value := Zeroed, m_type := NONE\<rparr>,
               h\<lparr>floats := (floats h)(a := None), owned := owned h - {a},
                  trace := trace h @ [DeleteArray a]\<rparr>))
   \<and> (holding p = OwnedInts a \<and> a \<in> owned h \<and> ints h a \<noteq> None \<longrightarrow>
      clearValue p h
        = Inr (p\<lparr>m_dynamic := False, m_count := (if m_dynamic p then 1 else m_count p),
                 m_value := Zeroed, m_type := NONE\<rparr>,
               h\<lparr>ints := (ints h)(a := None), owned := owned h - {a},
                  trace := trace h @ [DeleteArray a]\<rparr>))"
  by (cases "m_type p"; cases "m_value p"; cases "m_dynamic p")
     (simp_all add: holding_def clearValue_def safe_delete_floats_def delete_floats_def
        safe_delete_ints_def delete_ints_def safe_release_def release_def)

lemma setAnimationPropertyValue_frame:
  assumes "setAnimationPropertyValue pid av w p h = Inr (q, h')"
    and "m_value p = FloatPtrValue b" and "a \<noteq> b"
  shows "floats h' a = floats h a"
  using assms
  by (auto simp: setAnimationPropertyValue_def applyAnimationValue_def andThen_eq_Inr
      split: option.splits if_splits ptype.splits)

subsection \<open>Float arithmetic\<close>

text \<open>A check of \<open>fl\<close> against the known binary32 value of \<open>0.1f\<close>.\<close>

lemma fl_one_tenth: "fl (1 / 10) = 13421773 / 134217728"
  by code_simp

lemma FLT_MAX_pos: "0 < FLT_MAX"
  by (simp add: FLT_MAX_def)

lemma fl_0 [simp]: "fl 0 = 0"
  by (simp add: fl_def)

lemma rnd_0 [simp]: "rnd 0 = Fin 0"
  using FLT_MAX_pos by (simp add: rnd_def)

lemma rnd_finite32: "finite32 (Fin x) \<Longrightarrow> rnd x = Fin x"
  by (auto simp: rnd_def Let_def)

lemma rnd_Fin_self: "rnd x = Fin x \<Longrightarrow> finite32 (Fin x)"
  by (auto simp: rnd_def Let_def split: if_splits)

lemma lerp_0:
  assumes "finite32 a" and "is_finite (fsub b a)"
  shows "lerp (Fin 0) a b = a"
proof -
  from assms(1) obtain x where a: "a = Fin x" by (cases a) simp_all
  from assms(2) obtain d where d: "fsub b a = Fin d" by (cases "fsub b a") simp_all
  from assms(1) a have "rnd x = Fin x" by (simp add: rnd_finite32)
  with a d show ?thesis by (simp add: lerp_def)
qed

lemma lerp_1:
  assumes "finite32 a" and "finite32 b" and "exact_sub b a"
  shows "lerp (Fin 1) a b = b"
proof -
  from assms(1) obtain x where a: "a = Fin x" by (cases a) simp_all
  from assms(2) obtain y where b: "b = Fin y" by (cases b) simp_all
  from assms(3) a b have d: "rnd (y - x) = Fin (y - x)" by simp
  from assms(2) b have "rnd y = Fin y" by (simp add: rnd_finite32)
  with a b d show ?thesis by (simp add: lerp_def fsub_def)
qed

lemma lerp_1_same:
  assumes "finite32 a"
  shows "lerp (Fin 1) a a = a"
proof -
  from assms obtain x where a: "a = Fin x" by (cases a) simp_all
  from assms a have "rnd x = Fin x" by (simp add: rnd_finite32)
  with a show ?thesis by (simp add: lerp_def fsub_def)
qed

lemma int_of_float_eq:
  "int_of_float x = (if in_int_range x then Inr (trunc32 x)
                     else Inl (Undefined ''float to int conversion out of range''))"
  by (cases x) simp_all

lemma truncate_of_int [simp]: "trunc_toward_zero (real_of_int k) = k"
  by (simp add: trunc_toward_zero_def)

lemma int_exact_finite32: "int_exact i \<Longrightarrow> finite32 (float_of_int i)"
  unfolding int_exact_def float_of_int_def by (metis rnd_Fin_self)

lemma sint_range32: "- (2 ^ 31) \<le> sint (i :: 32 word) \<and> sint i < 2 ^ 31"
  using sint_ge[of i] sint_lt[of i] by simp

lemma int_exact_back:
  assumes "int_exact i"
  shows "in_int_range (float_of_int i) \<and> trunc32 (float_of_int i) = i"
proof -
  from assms have "float_of_int i = Fin (real_of_int (sint i))" by (simp add: int_exact_def)
  moreover have "trunc_toward_zero (real_of_int (sint i)) = sint i" by (rule truncate_of_int)
  moreover have "(word_of_int (sint i) :: 32 word) = i" by simp
  ultimately show ?thesis using sint_range32[of i] by (simp del: of_int_sint)
qed

lemma truncate_toward_zero:
  "\<bar>real_of_int (trunc_toward_zero x)\<bar> \<le> \<bar>x\<bar> \<and> \<bar>x - real_of_int (trunc_toward_zero x)\<bar> < 1"
  by (auto simp: trunc_toward_zero_def) linarith+

lemma rne_of_int [simp]: "rne (of_int m) = m"
  by (simp add: rne_def)

lemma fl_of_int_small:
  assumes "\<bar>k\<bar> < 2 ^ 24"
  shows "fl (of_int k) = of_int k"
proof (cases "k = 0")
  case True
  then show ?thesis by simp
next
  case False
  define e where "e = bitlen \<bar>k\<bar> - 1"
  from False have kpos: "0 < \<bar>k\<bar>" by simp
  then have "1 \<le> bitlen \<bar>k\<bar>" by (simp add: bitlen_alt_def)
  moreover from assms have "bitlen \<bar>k\<bar> \<le> 24" by (simp add: bitlen_le_iff_power)
  ultimately have e: "0 \<le> e" "e \<le> 23" by (simp_all add: e_def)
  from False have "1 \<le> \<bar>k\<bar>" by simp
  then have "(1::real) \<le> of_int \<bar>k\<bar>" by (simp only: of_int_1_le_iff)
  then have one: "1 \<le> \<bar>real_of_int k\<bar>" by simp
  have fe: "fexp (of_int k) = e"
    using one by (simp add: fexp_def e_def flip: of_int_abs)
  define m where "m = nat (23 - e)"
  from e have q: "quantum (of_int k) = 1 / 2 ^ m"
    by (simp add: quantum_def fe max_def m_def power_int_def field_simps)
  have "real_of_int k / (1 / 2 ^ m) = of_int (k * 2 ^ m)" by simp
  then have "rne (real_of_int k / quantum (of_int k)) = k * 2 ^ m"
    unfolding q by (metis rne_of_int)
  with False show ?thesis by (simp add: fl_def q)
qed

lemma two24_le_FLT_MAX: "2 ^ 24 \<le> FLT_MAX"
  by (simp add: FLT_MAX_def)

lemma finite32_of_int:
  assumes "\<bar>k\<bar> < 2 ^ 24"
  shows "finite32 (Fin (of_int k))"
proof -
  from assms have "real_of_int \<bar>k\<bar> < 2 ^ 24" by (simp only: of_int_less_numeral_power_cancel_iff)
  with two24_le_FLT_MAX have "\<bar>real_of_int k\<bar> \<le> FLT_MAX" by simp
  with fl_of_int_small[OF assms] show ?thesis by simp
qed

lemma int_exact_small:
  assumes "\<bar>sint i\<bar> < 2 ^ 24"
  shows "int_exact i"
  unfolding int_exact_def float_of_int_def
  by (rule rnd_finite32) (rule finite32_of_int[OF assms])

text \<open>
  Integer-valued channels of magnitude below \<open>2 ^ 24\<close> whose differences stay below
  \<open>2 ^ 24\<close> meet every exactness condition of the properties below.
\<close>

lemma small_integers_exact:
  assumes "\<bar>k\<bar> < 2 ^ 24" and "\<bar>j\<bar> < 2 ^ 24" and "\<bar>j - k\<bar> < 2 ^ 24"
  shows "finite32 (Fin (of_int k)) \<and> finite32 (Fin (of_int j))
         \<and> exact_sub (Fin (of_int j)) (Fin (of_int k))
         \<and> is_finite (fsub (Fin (of_int j)) (Fin (of_int k)))"
proof -
  have d: "rnd (real_of_int j - real_of_int k) = Fin (real_of_int j - real_of_int k)"
    using rnd_finite32[OF finite32_of_int[OF assms(3)]] by simp
  then have "fsub (Fin (of_int j)) (Fin (of_int k)) = Fin (real_of_int j - real_of_int k)"
    by (simp add: fsub_def)
  with d finite32_of_int[OF assms(1)] finite32_of_int[OF assms(2)] show ?thesis
    by simp
qed

subsection \<open>The loops\<close>

lemma blend_floats_nth:
  "i \<le> n \<Longrightarrow> n \<le> length xs \<Longrightarrow> n \<le> length av \<Longrightarrow>
   \<exists>ys. blend_floats i n w av xs = Inr ys \<and> length ys = length xs
      \<and> (\<forall>k<length xs. ys ! k = (if i \<le> k \<and> k < n then lerp w (xs ! k) (av ! k) else xs ! k))"
proof (induction i n w av xs rule: blend_floats.induct)
  case (1 i n w av xs)
  show ?case
  proof (cases "i < n")
    case False
    then show ?thesis by (subst blend_floats.simps) auto
  next
    case True
    with 1 have ixs: "i < length xs" and gf: "getFloat av i = Inr (av ! i)"
      by (simp_all add: getFloat_def)
    let ?xs' = "xs[i := lerp w (xs ! i) (av ! i)]"
    from True 1 have "\<exists>ys. blend_floats (Suc i) n w av ?xs' = Inr ys \<and> length ys = length ?xs'
      \<and> (\<forall>k<length ?xs'. ys ! k = (if Suc i \<le> k \<and> k < n then lerp w (?xs' ! k) (av ! k) else ?xs' ! k))"
      using "1.IH"[OF True ixs gf] by simp
    then obtain ys where ys: "blend_floats (Suc i) n w av ?xs' = Inr ys" "length ys = length xs"
      "\<forall>k<length xs. ys ! k = (if Suc i \<le> k \<and> k < n then lerp w (?xs' ! k) (av ! k) else ?xs' ! k)"
      by auto
    have "blend_floats i n w av xs = Inr ys"
      using True ixs gf ys(1) by (subst blend_floats.simps) simp
    moreover have "\<forall>k<length xs. ys ! k = (if i \<le> k \<and> k < n then lerp w (xs ! k) (av ! k) else xs ! k)"
      using ys(3) True ixs by (auto simp: nth_list_update)
    ultimately show ?thesis using ys(2) by blast
  qed
qed

lemma blend_ints_nth:
  "i \<le> n \<Longrightarrow> n \<le> length xs \<Longrightarrow> n \<le> length av \<Longrightarrow>
   \<forall>k. i \<le> k \<and> k < n \<longrightarrow> in_int_range (lerp w (float_of_int (xs ! k)) (av ! k)) \<Longrightarrow>
   \<exists>ys. blend_ints i n w av xs = Inr ys \<and> length ys = length xs
      \<and> (\<forall>k<length xs. ys ! k = (if i \<le> k \<and> k < n
                                   then trunc32 (lerp w (float_of_int (xs ! k)) (av ! k)) else xs ! k))"
proof (induction i n w av xs rule: blend_ints.induct)
  case (1 i n w av xs)
  show ?case
  proof (cases "i < n")
    case False
    then show ?thesis by (subst blend_ints.simps) auto
  next
    case True
    with 1 have ixs: "i < length xs" and gf: "getFloat av i = Inr (av ! i)"
      by (simp_all add: getFloat_def)
    let ?z = "trunc32 (lerp w (float_of_int (xs ! i)) (av ! i))"
    from True "1.prems"(4) have conv: "int_of_float (lerp w (float_of_int (xs ! i)) (av ! i)) = Inr ?z"
      by (simp add: int_of_float_eq)
    let ?xs' = "xs[i := ?z]"
    have rng: "\<forall>k. Suc i \<le> k \<and> k < n \<longrightarrow> in_int_range (lerp w (float_of_int (?xs' ! k)) (av ! k))"
      using "1.prems"(4) by (auto simp: nth_list_update)
    from True 1 have "\<exists>ys. blend_ints (Suc i) n w av ?xs' = Inr ys \<and> length ys = length ?xs'
      \<and> (\<forall>k<length ?xs'. ys ! k = (if Suc i \<le> k \<and> k < n
            then trunc32 (lerp w (float_of_int (?xs' ! k)) (av ! k)) else ?xs' ! k))"
      using "1.IH"[OF True ixs gf conv _ _ _ rng] by simp
    then obtain ys where ys: "blend_ints (Suc i) n w av ?xs' = Inr ys" "length ys = length xs"
      "\<forall>k<length xs. ys ! k = (if Suc i \<le> k \<and> k < n
            then trunc32 (lerp w (float_of_int (?xs' ! k)) (av ! k)) else ?xs' ! k)"
      by auto
    have "blend_ints i n w av xs = Inr ys"
      using True ixs gf conv ys(1) by (subst blend_ints.simps) simp
    moreover have "\<forall>k<length xs. ys ! k = (if i \<le> k \<and> k < n
            then trunc32 (lerp w (float_of_int (xs ! k)) (av ! k)) else xs ! k)"
      using ys(3) True ixs by (auto simp: nth_list_update)
    ultimately show ?thesis using ys(2) by blast
  qed
qed

lemma get_floats_nth:
  "i \<le> n \<Longrightarrow> n \<le> length xs \<Longrightarrow> n \<le> length av \<Longrightarrow>
   \<exists>av'. get_floats i n xs av = Inr av' \<and> length av' = length av
      \<and> (\<forall>k<length av. av' ! k = (if i \<le> k \<and> k < n then xs ! k else av ! k))"
proof (induction i n xs av rule: get_floats.induct)
  case (1 i n xs av)
  show ?case
  proof (cases "i < n")
    case False
    then show ?thesis by (subst get_floats.simps) auto
  next
    case True
    with 1 have ixs: "i < length xs" and sf: "setFloat av i (xs ! i) = Inr (av[i := xs ! i])"
      by (simp_all add: setFloat_def)
    let ?av = "av[i := xs ! i]"
    from True 1 have "\<exists>av'. get_floats (Suc i) n xs ?av = Inr av' \<and> length av' = length ?av
      \<and> (\<forall>k<length ?av. av' ! k = (if Suc i \<le> k \<and> k < n then xs ! k else ?av ! k))"
      using "1.IH"[OF True ixs sf] by simp
    then obtain av' where av': "get_floats (Suc i) n xs ?av = Inr av'" "length av' = length av"
      "\<forall>k<length av. av' ! k = (if Suc i \<le> k \<and> k < n then xs ! k else ?av ! k)"
      by auto
    have "get_floats i n xs av = Inr av'"
      using True ixs sf av'(1) by (subst get_floats.simps) simp
    moreover have "\<forall>k<length av. av' ! k = (if i \<le> k \<and> k < n then xs ! k else av ! k)"
      using av'(3) True by (auto simp: nth_list_update not_less_eq_eq dest: le_antisym)
    ultimately show ?thesis using av'(2) by blast
  qed
qed

lemma get_ints_nth:
  "i \<le> n \<Longrightarrow> n \<le> length xs \<Longrightarrow> n \<le> length av \<Longrightarrow>
   \<exists>av'. get_ints i n xs av = Inr av' \<and> length av' = length av
      \<and> (\<forall>k<length av. av' ! k = (if i \<le> k \<and> k < n then float_of_int (xs ! k) else av ! k))"
proof (induction i n xs av rule: get_ints.induct)
  case (1 i n xs av)
  show ?case
  proof (cases "i < n")
    case False
    then show ?thesis by (subst get_ints.simps) auto
  next
    case True
    with 1 have ixs: "i < length xs"
      and sf: "setFloat av i (float_of_int (xs ! i)) = Inr (av[i := float_of_int (xs ! i)])"
      by (simp_all add: setFloat_def)
    let ?av = "av[i := float_of_int (xs ! i)]"
    from True 1 have "\<exists>av'. get_ints (Suc i) n xs ?av = Inr av' \<and> length av' = length ?av
      \<and> (\<forall>k<length ?av. av' ! k = (if Suc i \<le> k \<and> k < n then float_of_int (xs ! k) else ?av ! k))"
      using "1.IH"[OF True ixs sf] by simp
    then obtain av' where av': "get_ints (Suc i) n xs ?av = Inr av'" "length av' = length av"
      "\<forall>k<length av. av' ! k = (if Suc i \<le> k \<and> k < n then float_of_int (xs ! k) else ?av ! k)"
      by auto
    have "get_ints i n xs av = Inr av'"
      using True ixs sf av'(1) by (subst get_ints.simps) simp
    moreover have "\<forall>k<length av. av' ! k = (if i \<le> k \<and> k < n then float_of_int (xs ! k) else av ! k)"
      using av'(3) True by (auto simp: nth_list_update not_less_eq_eq dest: le_antisym)
    ultimately show ?thesis using av'(2) by blast
  qed
qed

lemma get_vectors_single:
  assumes "0 < k" and "k \<le> length buf" and "length av = k" and "k < 2 ^ 32"
  shows "get_vectors 0 1 k (Inr buf) av = Inr (take k buf)"
proof -
  have "setFloats av buf 0 k = Inr (take k buf)"
    using assms by (simp add: setFloats_def)
  moreover have "get_vectors 1 1 k (Inr buf) (take k buf) = Inr (take k buf)"
    by (subst get_vectors.simps) simp
  ultimately show ?thesis
    by (subst get_vectors.simps) simp
qed

subsection \<open>Blending and reading, channel by channel\<close>

lemma array_channelsD:
  assumes "array_channels k p h = Some xs"
  obtains a buf where "m_value p = FloatPtrValue a" and "a \<noteq> 0" and "floats h a = Some buf"
    and "unat (m_count p * k) \<le> length buf" and "xs = take (unat (m_count p * k)) buf"
  using assms
  by (auto simp: array_channels_def split: uvalue.splits if_splits option.splits)

lemma applyAnimationValue_channels:
  assumes "array_channels k p h = Some xs" and "length av = length xs"
  shows "\<exists>h'. applyAnimationValue (Some av) w k p h = Inr (p, h')
            \<and> array_channels k p h' = Some (map2 (lerp w) xs av)"
proof -
  from assms(1) obtain a buf where v: "m_value p = FloatPtrValue a" and a: "a \<noteq> 0"
    and buf: "floats h a = Some buf" and n: "unat (m_count p * k) \<le> length buf"
    and xs: "xs = take (unat (m_count p * k)) buf"
    by (rule array_channelsD)
  let ?n = "unat (m_count p * k)"
  from assms(2) xs n have lav: "length av = ?n" by simp
  from blend_floats_nth[of 0 ?n buf av w] n lav obtain ys where
    ys: "blend_floats 0 ?n w av buf = Inr ys" "length ys = length buf"
        "\<forall>j<length buf. ys ! j = (if j < ?n then lerp w (buf ! j) (av ! j) else buf ! j)"
    by auto
  have run: "applyAnimationValue (Some av) w k p h = Inr (p, h\<lparr>floats := (floats h)(a \<mapsto> ys)\<rparr>)"
    using v a buf ys(1) by (simp add: applyAnimationValue_def resolve_floats_def)
  have "take ?n ys = map2 (lerp w) xs av"
  proof (rule nth_equalityI)
    show "length (take ?n ys) = length (map2 (lerp w) xs av)"
      using ys(2) n lav xs by simp
  next
    fix j assume "j < length (take ?n ys)"
    then have j: "j < ?n" by simp
    with ys(3) n have "ys ! j = lerp w (buf ! j) (av ! j)" by simp
    with j lav xs n show "take ?n ys ! j = map2 (lerp w) xs av ! j" by simp
  qed
  then have "array_channels k p (h\<lparr>floats := (floats h)(a \<mapsto> ys)\<rparr>) = Some (map2 (lerp w) xs av)"
    using v a ys(2) n by (simp add: array_channels_def)
  with run show ?thesis by blast
qed

lemma setAnimationPropertyValue_float_channels:
  assumes "float_channels p h = Some xs" and "length av = length xs"
    and "fle (Fin 0) w" and "fle w (Fin 1)"
  shows "\<exists>p' h'. setAnimationPropertyValue ANIMATE_UNIFORM (Some av) w p h = Inr (p', h')
            \<and> float_channels p' h' = Some (map2 (lerp w) xs av)
            \<and> m_type p' = m_type p \<and> m_count p' = m_count p"
proof (cases "m_type p = FLOAT \<and> m_count p = 1")
  case True
  with assms(1) obtain f where f: "m_value p = FloatValue f" "xs = [f]"
    by (auto simp: float_channels_def split: uvalue.splits)
  with assms(2) obtain v where v: "av = [v]" by (cases av) auto
  from True f v assms(3,4) show ?thesis
    by (simp add: setAnimationPropertyValue_def getFloat_def float_channels_def)
next
  case False
  with assms(1) obtain k where k: "array_channels k p h = Some xs"
    and run: "setAnimationPropertyValue ANIMATE_UNIFORM (Some av) w p h =
                applyAnimationValue (Some av) w k p h"
    and fc: "\<And>h'. float_channels p h' = array_channels k p h'"
    using assms(3,4)
    by (cases "m_type p")
       (auto simp: float_channels_def setAnimationPropertyValue_def split: if_splits)
  from applyAnimationValue_channels[OF k assms(2), of w] run fc show ?thesis by auto
qed

lemma setAnimationPropertyValue_int_channels:
  assumes "int_channels p h = Some xs" and "length av = length xs"
    and "fle (Fin 0) w" and "fle w (Fin 1)"
    and "list_all2 (\<lambda>i v. in_int_range (lerp w (float_of_int i) v)) xs av"
  shows "\<exists>p' h'. setAnimationPropertyValue ANIMATE_UNIFORM (Some av) w p h = Inr (p', h')
            \<and> int_channels p' h' = Some (map2 (\<lambda>i v. trunc32 (lerp w (float_of_int i) v)) xs av)
            \<and> m_type p' = m_type p \<and> m_count p' = m_count p"
proof -
  from assms(1) have t: "m_type p = INT'"
    by (auto simp: int_channels_def split: ptype.splits)
  show ?thesis
  proof (cases "m_count p = 1")
    case True
    with assms(1) t obtain i where i: "m_value p = IntValue i" "xs = [i]"
      by (auto simp: int_channels_def split: uvalue.splits)
    with assms(2) obtain v where v: "av = [v]" by (cases av) auto
    from assms(5) i v have "in_int_range (lerp w (float_of_int i) v)" by simp
    with True t i v assms(3,4) show ?thesis
      by (simp add: setAnimationPropertyValue_def getFloat_def int_channels_def int_of_float_eq)
  next
    case False
    with assms(1) t obtain a buf where v: "m_value p = IntPtrValue a" and a: "a \<noteq> 0"
      and buf: "ints h a = Some buf" and n: "unat (m_count p) \<le> length buf"
      and xs: "xs = take (unat (m_count p)) buf"
      by (auto simp: int_channels_def split: uvalue.splits if_splits option.splits)
    let ?n = "unat (m_count p)"
    from assms(2) xs n have lav: "length av = ?n" by simp
    have rng: "\<forall>j. 0 \<le> j \<and> j < ?n \<longrightarrow> in_int_range (lerp w (float_of_int (buf ! j)) (av ! j))"
    proof (intro allI impI)
      fix j assume "0 \<le> j \<and> j < ?n"
      then have j: "j < ?n" by simp
      with assms(5) xs n lav have "in_int_range (lerp w (float_of_int (xs ! j)) (av ! j))"
        by (simp add: list_all2_conv_all_nth)
      with j xs show "in_int_range (lerp w (float_of_int (buf ! j)) (av ! j))" by simp
    qed
    from blend_ints_nth[of 0 ?n buf av w, OF _ n _ rng] lav obtain ys where
      ys: "blend_ints 0 ?n w av buf = Inr ys" "length ys = length buf"
          "\<forall>j<length buf. ys ! j = (if j < ?n then trunc32 (lerp w (float_of_int (buf ! j)) (av ! j))
                                     else buf ! j)"
      by auto
    have run: "setAnimationPropertyValue ANIMATE_UNIFORM (Some av) w p h
                 = Inr (p, h\<lparr>ints := (ints h)(a \<mapsto> ys)\<rparr>)"
      using t False v a buf ys(1) assms(3,4)
      by (simp add: setAnimationPropertyValue_def resolve_ints_def)
    have "take ?n ys = map2 (\<lambda>i v. trunc32 (lerp w (float_of_int i) v)) xs av"
    proof (rule nth_equalityI)
      show "length (take ?n ys) = length (map2 (\<lambda>i v. trunc32 (lerp w (float_of_int i) v)) xs av)"
        using ys(2) n lav xs by simp
    next
      fix j assume "j < length (take ?n ys)"
      then have j: "j < ?n" by simp
      with ys(3) n have "ys ! j = trunc32 (lerp w (float_of_int (buf ! j)) (av ! j))" by simp
      with j lav xs n show "take ?n ys ! j
          = map2 (\<lambda>i v. trunc32 (lerp w (float_of_int i) v)) xs av ! j" by simp
    qed
    then have "int_channels p (h\<lparr>ints := (ints h)(a \<mapsto> ys)\<rparr>)
                 = Some (map2 (\<lambda>i v. trunc32 (lerp w (float_of_int i) v)) xs av)"
      using t False v a ys(2) n by (simp add: int_channels_def)
    with run show ?thesis by blast
  qed
qed

lemma map2_left:
  "list_all2 (\<lambda>x v. f x v = x) xs av \<Longrightarrow> map2 f xs av = xs"
  by (induction xs av rule: list_all2_induct) simp_all

lemma map2_right:
  "list_all2 (\<lambda>x v. f x v = v) xs av \<Longrightarrow> map2 f xs av = av"
  by (induction xs av rule: list_all2_induct) simp_all

lemma map2_second:
  "list_all2 (\<lambda>x v. f x v = g v) xs av \<Longrightarrow> map2 f xs av = map g av"
  by (induction xs av rule: list_all2_induct) simp_all

lemma fle_0_1 [simp]: "fle (Fin 0) (Fin 0)" "fle (Fin 0) (Fin 1)" "fle (Fin 1) (Fin 1)"
  by simp_all

lemma blend_zero_floats:
  assumes "float_channels p h = Some xs"
    and "list_all2 (\<lambda>x v. finite32 x \<and> is_finite (fsub v x)) xs av"
  shows "\<exists>p' h'. setAnimationPropertyValue ANIMATE_UNIFORM (Some av) (Fin 0) p h = Inr (p', h')
            \<and> float_channels p' h' = Some xs"
proof -
  from assms(2) have len: "length av = length xs" by (simp add: list_all2_lengthD)
  from assms(2) have "list_all2 (\<lambda>x v. lerp (Fin 0) x v = x) xs av"
    by (rule list_all2_mono) (simp add: lerp_0)
  then have "map2 (lerp (Fin 0)) xs av = xs" by (rule map2_left)
  with setAnimationPropertyValue_float_channels[OF assms(1) len, of "Fin 0"] show ?thesis
    by auto
qed

lemma blend_one_floats:
  assumes "float_channels p h = Some xs"
    and "list_all2 (\<lambda>x v. finite32 x \<and> finite32 v \<and> exact_sub v x) xs av"
  shows "\<exists>p' h'. setAnimationPropertyValue ANIMATE_UNIFORM (Some av) (Fin 1) p h = Inr (p', h')
            \<and> float_channels p' h' = Some av"
proof -
  from assms(2) have len: "length av = length xs" by (simp add: list_all2_lengthD)
  from assms(2) have "list_all2 (\<lambda>x v. lerp (Fin 1) x v = v) xs av"
    by (rule list_all2_mono) (simp add: lerp_1)
  then have "map2 (lerp (Fin 1)) xs av = av" by (rule map2_right)
  with setAnimationPropertyValue_float_channels[OF assms(1) len, of "Fin 1"] show ?thesis
    by auto
qed

lemma blend_zero_ints:
  assumes "int_channels p h = Some xs"
    and "list_all2 (\<lambda>i v. int_exact i \<and> is_finite (fsub v (float_of_int i))) xs av"
  shows "\<exists>p' h'. setAnimationPropertyValue ANIMATE_UNIFORM (Some av) (Fin 0) p h = Inr (p', h')
            \<and> int_channels p' h' = Some xs"
proof -
  from assms(2) have len: "length av = length xs" by (simp add: list_all2_lengthD)
  have step: "lerp (Fin 0) (float_of_int i) v = float_of_int i"
    if "int_exact i \<and> is_finite (fsub v (float_of_int i))" for i v
    using that by (simp add: lerp_0 int_exact_finite32)
  from assms(2) have rng: "list_all2 (\<lambda>i v. in_int_range (lerp (Fin 0) (float_of_int i) v)) xs av"
    by (rule list_all2_mono) (simp add: step int_exact_back)
  from assms(2) have "list_all2 (\<lambda>i v. trunc32 (lerp (Fin 0) (float_of_int i) v) = i) xs av"
    by (rule list_all2_mono) (simp add: step int_exact_back)
  then have "map2 (\<lambda>i v. trunc32 (lerp (Fin 0) (float_of_int i) v)) xs av = xs"
    by (rule map2_left)
  with setAnimationPropertyValue_int_channels[OF assms(1) len _ _ rng] show ?thesis
    by auto
qed

lemma blend_one_ints:
  assumes "int_channels p h = Some xs"
    and "list_all2 (\<lambda>i v. int_exact i \<and> finite32 v \<and> exact_sub v (float_of_int i)
                          \<and> in_int_range v) xs av"
  shows "\<exists>p' h'. setAnimationPropertyValue ANIMATE_UNIFORM (Some av) (Fin 1) p h = Inr (p', h')
            \<and> int_channels p' h' = Some (map trunc32 av)"
proof -
  from assms(2) have len: "length av = length xs" by (simp add: list_all2_lengthD)
  have step: "lerp (Fin 1) (float_of_int i) v = v"
    if "int_exact i \<and> finite32 v \<and> exact_sub v (float_of_int i) \<and> in_int_range v" for i v
    using that by (simp add: lerp_1 int_exact_finite32)
  from assms(2) have rng: "list_all2 (\<lambda>i v. in_int_range (lerp (Fin 1) (float_of_int i) v)) xs av"
    by (rule list_all2_mono) (simp add: step)
  from assms(2) have "list_all2 (\<lambda>i v. trunc32 (lerp (Fin 1) (float_of_int i) v) = trunc32 v) xs av"
    by (rule list_all2_mono) (simp add: step)
  then have "map2 (\<lambda>i v. trunc32 (lerp (Fin 1) (float_of_int i) v)) xs av = map trunc32 av"
    by (rule map2_second)
  with setAnimationPropertyValue_int_channels[OF assms(1) len _ _ rng] show ?thesis
    by auto
qed

lemma getAnimationPropertyValue_float_channels:
  assumes "float_channels p h = Some xs" and "length av = length xs"
    and "m_type p = FLOAT \<or> m_count p = 1"
  shows "getAnimationPropertyValue ANIMATE_UNIFORM (Some av) p h = Inr xs"
proof (cases "m_type p = FLOAT")
  case True
  note t = this
  show ?thesis
  proof (cases "m_count p = 1")
    case True
    with assms(1) t obtain f where f: "m_value p = FloatValue f" "xs = [f]"
      by (auto simp: float_channels_def split: uvalue.splits)
    with assms(2) obtain v where v: "av = [v]" by (cases av) auto
    from True t f v show ?thesis
      by (simp add: getAnimationPropertyValue_def setFloat_def)
  next
    case False
    with assms(1) t have "array_channels 1 p h = Some xs" by (simp add: float_channels_def)
    then obtain a buf where v: "m_value p = FloatPtrValue a" and a: "a \<noteq> 0"
      and buf: "floats h a = Some buf" and n: "unat (m_count p * 1) \<le> length buf"
      and xs: "xs = take (unat (m_count p * 1)) buf"
      by (rule array_channelsD)
    let ?n = "unat (m_count p)"
    from assms(2) xs n have lav: "length av = ?n" by simp
    from get_floats_nth[of 0 ?n buf av] n lav obtain av' where
      av': "get_floats 0 ?n buf av = Inr av'" "length av' = length av"
           "\<forall>j<length av. av' ! j = (if j < ?n then buf ! j else av ! j)"
      by auto
    have "av' = xs"
      using av'(2,3) lav xs n by (intro nth_equalityI) simp_all
    with t False v a buf av'(1) show ?thesis
      by (simp add: getAnimationPropertyValue_def resolve_floats_def)
  qed
next
  case False
  with assms(3) have c: "m_count p = 1" by simp
  from False assms(1) obtain k :: nat where k: "array_channels (of_nat k) p h = Some xs"
    and kk: "0 < k" "k \<le> 4"
    and run: "getAnimationPropertyValue ANIMATE_UNIFORM (Some av) p h
                = get_vectors 0 (unat (m_count p)) k (vector_source p h) av"
    by (cases "m_type p")
       (auto simp: float_channels_def getAnimationPropertyValue_def
          intro: that[of 2] that[of 3] that[of 4])
  from k obtain a buf where v: "m_value p = FloatPtrValue a" and a: "a \<noteq> 0"
    and buf: "floats h a = Some buf" and n: "unat (m_count p * of_nat k) \<le> length buf"
    and xs: "xs = take (unat (m_count p * of_nat k)) buf"
    by (rule array_channelsD)
  from kk have uk: "unat (of_nat k :: 32 word) = k"
    by (simp add: unat_of_nat)
  with c n xs have n': "k \<le> length buf" and xs': "xs = take k buf" by simp_all
  with assms(2) have lav: "length av = k" by simp
  have src: "vector_source p h = Inr buf"
    using v a buf by (simp add: vector_source_def resolve_floats_def)
  from kk have "k < 2 ^ 32" by simp
  from get_vectors_single[OF kk(1) n' lav this] run c src xs' show ?thesis by simp
qed

lemma getAnimationPropertyValue_int_channels:
  assumes "int_channels p h = Some xs" and "length av = length xs"
  shows "getAnimationPropertyValue ANIMATE_UNIFORM (Some av) p h = Inr (map float_of_int xs)"
proof -
  from assms(1) have t: "m_type p = INT'"
    by (auto simp: int_channels_def split: ptype.splits)
  show ?thesis
  proof (cases "m_count p = 1")
    case True
    with assms(1) t obtain i where i: "m_value p = IntValue i" "xs = [i]"
      by (auto simp: int_channels_def split: uvalue.splits)
    with assms(2) obtain v where v: "av = [v]" by (cases av) auto
    from True t i v show ?thesis
      by (simp add: getAnimationPropertyValue_def setFloat_def)
  next
    case False
    with assms(1) t obtain a buf where v: "m_value p = IntPtrValue a" and a: "a \<noteq> 0"
      and buf: "ints h a = Some buf" and n: "unat (m_count p) \<le> length buf"
      and xs: "xs = take (unat (m_count p)) buf"
      by (auto simp: int_channels_def split: uvalue.splits if_splits option.splits)
    let ?n = "unat (m_count p)"
    from assms(2) xs n have lav: "length av = ?n" by simp
    from get_ints_nth[of 0 ?n buf av] n lav obtain av' where
      av': "get_ints 0 ?n buf av = Inr av'" "length av' = length av"
           "\<forall>j<length av. av' ! j = (if j < ?n then float_of_int (buf ! j) else av ! j)"
      by auto
    have "av' = map float_of_int xs"
      using av'(2,3) lav xs n by (intro nth_equalityI) simp_all
    with t False v a buf av'(1) show ?thesis
      by (simp add: getAnimationPropertyValue_def resolve_ints_def)
  qed
qed

lemma list_all_all2_same: "list_all P xs \<Longrightarrow> list_all2 (\<lambda>x v. P x \<and> v = x) xs xs"
  by (induction xs) simp_all

lemma roundtrip_floats:
  assumes "float_channels p h = Some xs" and "length av = length xs"
    and "m_type p = FLOAT \<or> m_count p = 1" and "list_all finite32 xs"
  shows "getAnimationPropertyValue ANIMATE_UNIFORM (Some av) p h = Inr xs
         \<and> (\<exists>p' h'. setAnimationPropertyValue ANIMATE_UNIFORM (Some xs) (Fin 1) p h = Inr (p', h')
                \<and> float_channels p' h' = Some xs)"
proof -
  from assms(4) have "list_all2 (\<lambda>x v. finite32 x \<and> v = x) xs xs"
    by (rule list_all_all2_same)
  then have "list_all2 (\<lambda>x v. lerp (Fin 1) x v = x) xs xs"
    by (rule list_all2_mono) (simp add: lerp_1_same)
  then have "map2 (lerp (Fin 1)) xs xs = xs" by (rule map2_left)
  with setAnimationPropertyValue_float_channels[OF assms(1), of xs "Fin 1"]
    getAnimationPropertyValue_float_channels[OF assms(1,2,3)]
  show ?thesis by auto
qed

lemma roundtrip_ints:
  assumes "int_channels p h = Some ys" and "length av = length ys" and "list_all int_exact ys"
  shows "getAnimationPropertyValue ANIMATE_UNIFORM (Some av) p h = Inr (map float_of_int ys)
         \<and> (\<exists>p' h'. setAnimationPropertyValue ANIMATE_UNIFORM (Some (map float_of_int ys)) (Fin 1) p h
                       = Inr (p', h')
                \<and> int_channels p' h' = Some ys)"
proof -
  have step: "lerp (Fin 1) (float_of_int i) (float_of_int i) = float_of_int i" if "int_exact i" for i
    using that by (simp add: lerp_1_same int_exact_finite32)
  from assms(3) have all2: "list_all2 (\<lambda>i v. int_exact i \<and> v = float_of_int i) ys (map float_of_int ys)"
    by (induction ys) simp_all
  then have rng: "list_all2 (\<lambda>i v. in_int_range (lerp (Fin 1) (float_of_int i) v))
                    ys (map float_of_int ys)"
    by (rule list_all2_mono) (simp add: step int_exact_back)
  from all2 have "list_all2 (\<lambda>i v. trunc32 (lerp (Fin 1) (float_of_int i) v) = i)
                    ys (map float_of_int ys)"
    by (rule list_all2_mono) (simp add: step int_exact_back)
  then have "map2 (\<lambda>i v. trunc32 (lerp (Fin 1) (float_of_int i) v)) ys (map float_of_int ys) = ys"
    by (rule map2_left)
  with setAnimationPropertyValue_int_channels[OF assms(1) _ _ _ rng]
    getAnimationPropertyValue_int_channels[OF assms(1,2)]
  show ?thesis by auto
qed

subsection \<open>A scenario of the spec\<close>

text \<open>
  The model run on a scenario of the spec: setting \<open>Vector3(1, 2, 3)\<close> stores the three
  floats in a new owned array; the channels read \<open>[1, 2, 3]\<close>; blending with the input
  \<open>[4, 5, 6]\<close> at weight \<open>0.5\<close> stores \<open>[2.5, 3.5, 4.5]\<close>.
\<close>

lemma scenario_vector3:
  "setValue_Vector3 (Temp [Fin 1, Fin 2, Fin 3]) (MaterialParameter (Some ''u_lightColor'')) heap0
     = Inr (vec3_cell\<lparr>m_value := FloatPtrValue 1\<rparr>,
            heap0\<lparr>floats := (floats heap0)(1 \<mapsto> [Fin 1, Fin 2, Fin 3]), owned := {1},
                  brk := 2, trace := [NewArray 1 3]\<rparr>)
   \<and> getAnimationPropertyValue ANIMATE_UNIFORM (Some [Fin 0, Fin 0, Fin 0]) vec3_cell vec3_heap
     = Inr [Fin 1, Fin 2, Fin 3]
   \<and> setAnimationPropertyValue ANIMATE_UNIFORM (Some [Fin 4, Fin 5, Fin 6]) (Fin (1 / 2))
       vec3_cell vec3_heap
     = Inr (vec3_cell,
            vec3_heap\<lparr>floats := (floats vec3_heap)(100 \<mapsto> [Fin (5 / 2), Fin (7 / 2), Fin (9 / 2)])\<rparr>)"
proof -
  have l: "lerp (Fin (1 / 2)) (Fin 1) (Fin 4) = Fin (5 / 2)"
    "lerp (Fin (1 / 2)) (Fin 2) (Fin 5) = Fin (7 / 2)"
    "lerp (Fin (1 / 2)) (Fin 3) (Fin 6) = Fin (9 / 2)"
    by code_simp+
  have b: "blend_floats 0 3 (Fin (1 / 2)) [Fin 4, Fin 5, Fin 6] [Fin 1, Fin 2, Fin 3]
             = Inr [Fin (5 / 2), Fin (7 / 2), Fin (9 / 2)]"
    by (simp add: getFloat_def l)
  have g: "get_vectors 0 1 3 (Inr [Fin 1, Fin 2, Fin 3]) [Fin 0, Fin 0, Fin 0]
             = Inr [Fin 1, Fin 2, Fin 3]"
    by (simp add: setFloats_def)
  show ?thesis
    using b g
    by (simp add: setValue_Vector3_def set_vector_def clearValue_def read_floats_at_def
        new_floats_def MaterialParameter_def heap0_def vec3_cell_def vec3_heap_def
        getAnimationPropertyValue_def vector_source_def resolve_floats_def
        setAnimationPropertyValue_def applyAnimationValue_def)
qed

section \<open>The claims\<close>

subsection \<open>Blending at the weights 0 and 1\<close>

text \<open>
  Claim C1, as amended. Blending with weight 0 leaves every stored channel as it was
  when the stored channels are finite floats (for an Int cell: ints that convert to
  float exactly) and every float difference \<open>input - stored\<close> is finite. Blending with
  weight 1 makes every stored channel of a Float or Vector cell equal to the input
  channel when both are finite floats whose difference is computed exactly, and makes
  every stored channel of an Int cell the input channel truncated toward zero, under
  the same conditions and when the truncated input is an \<open>int\<close>.
\<close>

theorem blend_weight_zero_one:
  "(float_channels p h = Some xs
      \<and> list_all2 (\<lambda>x v. finite32 x \<and> is_finite (fsub v x)) xs av \<longrightarrow>
      (\<exists>p' h'. setAnimationPropertyValue ANIMATE_UNIFORM (Some av) (Fin 0) p h = Inr (p', h')
          \<and> float_channels p' h' = Some xs))
   \<and> (float_channels p h = Some xs
      \<and> list_all2 (\<lambda>x v. finite32 x \<and> finite32 v \<and> exact_sub v x) xs av \<longrightarrow>
      (\<exists>p' h'. setAnimationPropertyValue ANIMATE_UNIFORM (Some av) (Fin 1) p h = Inr (p', h')
          \<and> float_channels p' h' = Some av))
   \<and> (int_channels p h = Some ys
      \<and> list_all2 (\<lambda>i v. int_exact i \<and> is_finite (fsub v (float_of_int i))) ys av \<longrightarrow>
      (\<exists>p' h'. setAnimationPropertyValue ANIMATE_UNIFORM (Some av) (Fin 0) p h = Inr (p', h')
          \<and> int_channels p' h' = Some ys))
   \<and> (int_channels p h = Some ys
      \<and> list_all2 (\<lambda>i v. int_exact i \<and> finite32 v \<and> exact_sub v (float_of_int i)
                          \<and> in_int_range v) ys av \<longrightarrow>
      (\<exists>p' h'. setAnimationPropertyValue ANIMATE_UNIFORM (Some av) (Fin 1) p h = Inr (p', h')
          \<and> int_channels p' h' = Some (map trunc32 av)))"
  using blend_zero_floats[of p h xs av] blend_one_floats[of p h xs av]
    blend_zero_ints[of p h ys av] blend_one_ints[of p h ys av]
  by blast

text \<open>
  The theorem at work on a Vector3 cell holding \<open>(1, 2, 3)\<close> with input \<open>(4, 5, 6)\<close>,
  and on an Int cell holding 7 with input \<open>2.5\<close>.
\<close>

theorem blend_weight_zero_one_witness:
  "float_channels vec3_cell vec3_heap = Some [Fin 1, Fin 2, Fin 3]
   \<and> list_all2 (\<lambda>x v. finite32 x \<and> is_finite (fsub v x)) [Fin 1, Fin 2, Fin 3] [Fin 4, Fin 5, Fin 6]
   \<and> (\<exists>p' h'. setAnimationPropertyValue ANIMATE_UNIFORM (Some [Fin 4, Fin 5, Fin 6]) (Fin 0)
                 vec3_cell vec3_heap = Inr (p', h')
          \<and> float_channels p' h' = Some [Fin 1, Fin 2, Fin 3])
   \<and> list_all2 (\<lambda>x v. finite32 x \<and> finite32 v \<and> exact_sub v x)
        [Fin 1, Fin 2, Fin 3] [Fin 4, Fin 5, Fin 6]
   \<and> (\<exists>p' h'. setAnimationPropertyValue ANIMATE_UNIFORM (Some [Fin 4, Fin 5, Fin 6]) (Fin 1)
                 vec3_cell vec3_heap = Inr (p', h')
          \<and> float_channels p' h' = Some [Fin 4, Fin 5, Fin 6])
   \<and> int_channels (int_cell 7) heap0 = Some [7]
   \<and> list_all2 (\<lambda>i v. int_exact i \<and> is_finite (fsub v (float_of_int i))) [7] [Fin (5 / 2)]
   \<and> (\<exists>p' h'. setAnimationPropertyValue ANIMATE_UNIFORM (Some [Fin (5 / 2)]) (Fin 0)
                 (int_cell 7) heap0 = Inr (p', h')
          \<and> int_channels p' h' = Some [7])
   \<and> list_all2 (\<lambda>i v. int_exact i \<and> finite32 v \<and> exact_sub v (float_of_int i)
                       \<and> in_int_range v) [7] [Fin (5 / 2)]
   \<and> (\<exists>p' h'. setAnimationPropertyValue ANIMATE_UNIFORM (Some [Fin (5 / 2)]) (Fin 1)
                 (int_cell 7) heap0 = Inr (p', h')
          \<and> int_channels p' h' = Some [2])"
proof -
  have a: "float_channels vec3_cell vec3_heap = Some [Fin 1, Fin 2, Fin 3]"
    by (simp add: float_channels_def array_channels_def vec3_cell_def vec3_heap_def)
  have b: "list_all2 (\<lambda>x v. finite32 x \<and> is_finite (fsub v x))
             [Fin 1, Fin 2, Fin 3] [Fin 4, Fin 5, Fin 6]"
    by code_simp
  have c: "list_all2 (\<lambda>x v. finite32 x \<and> finite32 v \<and> exact_sub v x)
             [Fin 1, Fin 2, Fin 3] [Fin 4, Fin 5, Fin 6]"
    by code_simp
  have d: "int_channels (int_cell 7) heap0 = Some [7]"
    by (simp add: int_channels_def int_cell_def)
  have e: "list_all2 (\<lambda>i v. int_exact i \<and> is_finite (fsub v (float_of_int i))) [7] [Fin (5 / 2)]"
    by code_simp
  have f: "list_all2 (\<lambda>i v. int_exact i \<and> finite32 v \<and> exact_sub v (float_of_int i)
                       \<and> in_int_range v) [7] [Fin (5 / 2)]"
    by code_simp
  have g: "map trunc32 [Fin (5 / 2)] = [2]"
    by code_simp
  from blend_weight_zero_one[of vec3_cell vec3_heap "[Fin 1, Fin 2, Fin 3]"
      "[Fin 4, Fin 5, Fin 6]" "[]"] a b c
    blend_weight_zero_one[of "int_cell 7" heap0 "[]" "[Fin (5 / 2)]" "[7]"] d e f g
  show ?thesis by simp
qed

text \<open>
  The claim as stated fails. At weight 1 an Int cell holding 0 with input \<open>0.5\<close> keeps
  0, and a Float cell holding \<open>2 ^ 25\<close> with input 1 ends at 0 (the difference
  \<open>1 - 2 ^ 25\<close> rounds to \<open>- 2 ^ 25\<close>). At weight 0 a Float cell holding 1 with an
  infinite input ends as NaN, and an Int cell holding \<open>2 ^ 24 + 1\<close> ends at \<open>2 ^ 24\<close>.
\<close>

theorem blend_weight_zero_one_counterexample:
  "setAnimationPropertyValue ANIMATE_UNIFORM (Some [Fin (1 / 2)]) (Fin 1) (int_cell 0) heap0
     = Inr (int_cell 0, heap0)
   \<and> setAnimationPropertyValue ANIMATE_UNIFORM (Some [Fin 1]) (Fin 1)
       (scalar_cell (Fin 33554432)) heap0
     = Inr (scalar_cell (Fin 0), heap0)
   \<and> setAnimationPropertyValue ANIMATE_UNIFORM (Some [PInf]) (Fin 0) (scalar_cell (Fin 1)) heap0
     = Inr (scalar_cell NaN, heap0)
   \<and> setAnimationPropertyValue ANIMATE_UNIFORM (Some [Fin 0]) (Fin 0) (int_cell 16777217) heap0
     = Inr (int_cell 16777216, heap0)"
proof -
  have a: "int_of_float (lerp (Fin 1) (float_of_int 0) (Fin (1 / 2))) = Inr 0"
    by code_simp
  have b: "lerp (Fin 1) (Fin 33554432) (Fin 1) = Fin 0"
    by code_simp
  have c: "lerp (Fin 0) (Fin 1) PInf = NaN"
    by code_simp
  have d: "int_of_float (lerp (Fin 0) (float_of_int 16777217) (Fin 0)) = Inr 16777216"
    by code_simp
  show ?thesis
    using a b c d
    by (simp add: setAnimationPropertyValue_def getFloat_def int_cell_def scalar_cell_def)
qed

subsection \<open>Channel counts\<close>

text \<open>
  Claim C2. For the uniform-value property id, a parameter of count \<open>n\<close> reports
  \<open>n * 1\<close> channels for the kinds Float and Int, \<open>n * 2\<close>, \<open>n * 3\<close> and \<open>n * 4\<close> for
  Vector2, Vector3 and Vector4, and \<open>0\<close> for Matrix, Sampler, Method and None. The
  count and the result are \<open>unsigned int\<close>, so the product is the 32-bit one: read as
  natural numbers, the result is the product modulo \<open>2 ^ 32\<close>.
\<close>

theorem getAnimationPropertyComponentCount_kinds:
  "getAnimationPropertyComponentCount ANIMATE_UNIFORM (p\<lparr>m_type := FLOAT, m_count := n\<rparr>) = n * 1
   \<and> getAnimationPropertyComponentCount ANIMATE_UNIFORM (p\<lparr>m_type := INT', m_count := n\<rparr>) = n * 1
   \<and> getAnimationPropertyComponentCount ANIMATE_UNIFORM (p\<lparr>m_type := VECTOR2, m_count := n\<rparr>) = n * 2
   \<and> getAnimationPropertyComponentCount ANIMATE_UNIFORM (p\<lparr>m_type := VECTOR3, m_count := n\<rparr>) = n * 3
   \<and> getAnimationPropertyComponentCount ANIMATE_UNIFORM (p\<lparr>m_type := VECTOR4, m_count := n\<rparr>) = n * 4
   \<and> getAnimationPropertyComponentCount ANIMATE_UNIFORM (p\<lparr>m_type := MATRIX, m_count := n\<rparr>) = 0
   \<and> getAnimationPropertyComponentCount ANIMATE_UNIFORM (p\<lparr>m_type := SAMPLER, m_count := n\<rparr>) = 0
   \<and> getAnimationPropertyComponentCount ANIMATE_UNIFORM (p\<lparr>m_type := METHOD, m_count := n\<rparr>) = 0
   \<and> getAnimationPropertyComponentCount ANIMATE_UNIFORM (p\<lparr>m_type := NONE, m_count := n\<rparr>) = 0
   \<and> unat (getAnimationPropertyComponentCount ANIMATE_UNIFORM (p\<lparr>m_type := VECTOR2, m_count := n\<rparr>))
       = (unat n * 2) mod 2 ^ 32
   \<and> unat (getAnimationPropertyComponentCount ANIMATE_UNIFORM (p\<lparr>m_type := VECTOR3, m_count := n\<rparr>))
       = (unat n * 3) mod 2 ^ 32
   \<and> unat (getAnimationPropertyComponentCount ANIMATE_UNIFORM (p\<lparr>m_type := VECTOR4, m_count := n\<rparr>))
       = (unat n * 4) mod 2 ^ 32"
  by (simp add: getAnimationPropertyComponentCount_def unat_word_ariths mult.commute)

subsection \<open>Clearing after a set\<close>

text \<open>
  Claim C3 fails on the code. On a fresh parameter, \<open>setValue(const float*, 3)\<close>
  followed by \<open>clearValue\<close> leaves the count at 3: \<open>clearValue\<close> resets the count only
  where it frees dynamic storage. A scalar \<open>setValue(float)\<close> after the array setter
  therefore yields a Float cell of count 3 with a scalar payload, which \<open>bind\<close> then
  uploads through the pointer member of the union.
\<close>

theorem clearValue_keeps_array_count:
  "andThen (setValue_floats 100 3 (MaterialParameter (Some ''u_weights'')) weights_heap)
     (\<lambda>(p, h). clearValue p h)
     = Inr (\<lparr>m_type = NONE, m_count = 3, m_dynamic = False, m_name = ''u_weights'',
             m_uniform = None, m_value = Zeroed\<rparr>, weights_heap)
   \<and> andThen (setValue_floats 100 3 (MaterialParameter (Some ''u_weights'')) weights_heap)
       (\<lambda>(p, h). setValue_float (Fin 2) p h)
     = Inr (\<lparr>m_type = FLOAT, m_count = 3, m_dynamic = False, m_name = ''u_weights'',
             m_uniform = None, m_value = FloatValue (Fin 2)\<rparr>, weights_heap)
   \<and> upload_value \<lparr>u_name = ''u_weights'', u_effect = 9\<rparr> example_effect
         \<lparr>m_type = FLOAT, m_count = 3, m_dynamic = False, m_name = ''u_weights'',
          m_uniform = None, m_value = FloatValue (Fin 2)\<rparr>
     = Inl punned"
  by (simp add: setValue_floats_def setValue_float_def clearValue_def MaterialParameter_def
      upload_value_def)

subsection \<open>Tearing down the prior payload\<close>

text \<open>
  Claim C4 fails on the code. A parameter that holds a sampler (reference count 2
  after \<open>setValue\<close> added its reference) is the target of \<open>cloneInto\<close> from a scalar
  Float parameter: \<open>cloneInto\<close> overwrites the target's kind before \<open>setValue\<close> calls
  \<open>clearValue\<close>, so the sampler is never released and the store is left untouched. The
  typed setter on the same target releases it. In the same way a target that owns a
  Vector3 array keeps the array allocated, with nothing pointing to it, when an Int
  parameter is cloned into it, where \<open>setValue(int)\<close> frees it.
\<close>

theorem cloneInto_skips_teardown:
  "setValue_Sampler 5 (MaterialParameter (Some ''u_diffuseTexture''))
       (heap0\<lparr>refs := (refs heap0)(5 \<mapsto> 1), brk := 6\<rparr>)
     = Inr (sampler_cell, sampler_heap\<lparr>trace := [AddRef 5]\<rparr>)
   \<and> cloneInto float_cell (Some sampler_cell) (sampler_heap\<lparr>trace := [AddRef 5]\<rparr>)
     = Inr (float_cell, sampler_heap\<lparr>trace := [AddRef 5]\<rparr>)
   \<and> setValue_float (Fin 1) sampler_cell (sampler_heap\<lparr>trace := [AddRef 5]\<rparr>)
     = Inr (float_cell, heap0\<lparr>refs := (refs heap0)(5 \<mapsto> 1), brk := 6,
                              trace := [AddRef 5, Release 5]\<rparr>)
   \<and> cloneInto (int_cell 7) (Some vec3_cell) vec3_heap
     = Inr ((int_cell 7)\<lparr>m_name := ''u_lightColor''\<rparr>, vec3_heap)
   \<and> setValue_int 7 vec3_cell vec3_heap
     = Inr ((int_cell 7)\<lparr>m_name := ''u_lightColor''\<rparr>,
            heap0\<lparr>brk := 101, trace := [DeleteArray 100]\<rparr>)"
  by (simp add: setValue_Sampler_def cloneInto_def setValue_float_def setValue_int_def
      clearValue_def MaterialParameter_def sampler_cell_def sampler_heap_def float_cell_def
      heap0_def addRef_def release_def numeral_2_eq_2 int_cell_def vec3_cell_def
      vec3_heap_def safe_delete_floats_def delete_floats_def)

subsection \<open>Cloning a Vector3\<close>

text \<open>
  Claim C5. From a Vector3 parameter whose pointer leads to a live array, into a
  freshly constructed target: with count 1 the clone owns a new array that holds the
  original's three floats, at another address than the original's, and no blend on the
  clone changes the original's array; with count above 1 the clone holds the
  original's pointer and count and owns nothing.
\<close>

theorem cloneInto_Vector3:
  assumes "m_type this = VECTOR3" and "m_value this = FloatPtrValue a" and "a \<noteq> 0"
    and "floats h a = Some xs" and "floats h (brk h) = None" and "m_value mp = Zeroed"
  shows "(m_count this = 1 \<and> 3 \<le> length xs \<longrightarrow>
            (\<exists>p' h' a'. cloneInto this (Some mp) h = Inr (p', h')
               \<and> m_type p' = VECTOR3 \<and> m_count p' = 1 \<and> m_dynamic p'
               \<and> m_value p' = FloatPtrValue a' \<and> a' \<noteq> a \<and> a' \<in> owned h'
               \<and> floats h' a' = Some (take 3 xs) \<and> floats h' a = Some xs
               \<and> (\<forall>pid av w q h''. setAnimationPropertyValue pid av w p' h' = Inr (q, h'')
                      \<longrightarrow> floats h'' a = Some xs)))
       \<and> (1 < m_count this \<longrightarrow>
            cloneInto this (Some mp) h
              = Inr (mp\<lparr>m_type := VECTOR3, m_count := m_count this, m_dynamic := False,
                        m_uniform := m_uniform this, m_value := FloatPtrValue a\<rparr>, h))"
proof (intro conjI impI)
  assume one: "m_count this = 1 \<and> 3 \<le> length xs"
  from assms have ne: "brk h \<noteq> a" by auto
  define p' where "p' = mp\<lparr>m_type := VECTOR3, m_count := 1, m_dynamic := True,
      m_uniform := m_uniform this, m_value := FloatPtrValue (brk h)\<rparr>"
  define h' where "h' = h\<lparr>floats := (floats h)(brk h \<mapsto> take 3 xs),
      owned := insert (brk h) (owned h), brk := Suc (brk h),
      trace := trace h @ [NewArray (brk h) 3]\<rparr>"
  have run: "cloneInto this (Some mp) h = Inr (p', h')"
    using assms one
    by (cases "m_dynamic this")
       (simp_all add: cloneInto_def setValue_Vector3_def set_vector_def clearValue_def
         safe_delete_floats_def read_floats_at_def resolve_floats_def new_floats_def
         p'_def h'_def min_def)
  have frame: "\<forall>pid av w q h''. setAnimationPropertyValue pid av w p' h' = Inr (q, h'')
                  \<longrightarrow> floats h'' a = Some xs"
  proof (intro allI impI)
    fix pid av w q h''
    assume "setAnimationPropertyValue pid av w p' h' = Inr (q, h'')"
    from setAnimationPropertyValue_frame[OF this, of "brk h" a] ne
    have "floats h'' a = floats h' a" by (simp add: p'_def)
    with assms ne show "floats h'' a = Some xs" by (simp add: h'_def)
  qed
  show "\<exists>p' h' a'. cloneInto this (Some mp) h = Inr (p', h')
               \<and> m_type p' = VECTOR3 \<and> m_count p' = 1 \<and> m_dynamic p'
               \<and> m_value p' = FloatPtrValue a' \<and> a' \<noteq> a \<and> a' \<in> owned h'
               \<and> floats h' a' = Some (take 3 xs) \<and> floats h' a = Some xs
               \<and> (\<forall>pid av w q h''. setAnimationPropertyValue pid av w p' h' = Inr (q, h'')
                      \<longrightarrow> floats h'' a = Some xs)"
    apply (rule exI[of _ p'], rule exI[of _ h'], rule exI[of _ "brk h"])
    using run frame ne assms by (simp add: p'_def h'_def)
next
  assume many: "1 < m_count this"
  then have "m_count this \<noteq> 1" by auto
  with assms show "cloneInto this (Some mp) h
              = Inr (mp\<lparr>m_type := VECTOR3, m_count := m_count this, m_dynamic := False,
                        m_uniform := m_uniform this, m_value := FloatPtrValue a\<rparr>, h)"
    by (cases "m_dynamic this")
       (simp_all add: cloneInto_def setValue_Vector3s_def set_array_def clearValue_def
         safe_delete_floats_def)
qed

theorem cloneInto_Vector3_witness:
  "m_type vec3_cell = VECTOR3 \<and> m_value vec3_cell = FloatPtrValue 100 \<and> (100 :: nat) \<noteq> 0
   \<and> floats vec3_heap 100 = Some [Fin 1, Fin 2, Fin 3] \<and> floats vec3_heap (brk vec3_heap) = None
   \<and> m_value (MaterialParameter (Some ''u_lightColor'')) = Zeroed
   \<and> m_count vec3_cell = 1 \<and> 3 \<le> length [Fin 1, Fin 2, Fin 3 :: float32]
   \<and> (\<exists>p' h' a'. cloneInto vec3_cell (Some (MaterialParameter (Some ''u_lightColor''))) vec3_heap
                    = Inr (p', h')
          \<and> m_type p' = VECTOR3 \<and> m_count p' = 1 \<and> m_dynamic p'
          \<and> m_value p' = FloatPtrValue a' \<and> a' \<noteq> 100 \<and> a' \<in> owned h'
          \<and> floats h' a' = Some [Fin 1, Fin 2, Fin 3]
          \<and> floats h' 100 = Some [Fin 1, Fin 2, Fin 3]
          \<and> (\<forall>pid av w q h''. setAnimationPropertyValue pid av w p' h' = Inr (q, h'')
                 \<longrightarrow> floats h'' 100 = Some [Fin 1, Fin 2, Fin 3]))
   \<and> m_type vec3_array_cell = VECTOR3 \<and> m_value vec3_array_cell = FloatPtrValue 200
   \<and> (200 :: nat) \<noteq> 0
   \<and> floats vec3_array_heap 200 = Some [Fin 1, Fin 2, Fin 3, Fin 4, Fin 5, Fin 6]
   \<and> floats vec3_array_heap (brk vec3_array_heap) = None
   \<and> 1 < m_count vec3_array_cell
   \<and> cloneInto vec3_array_cell (Some (MaterialParameter (Some ''u_lightColor''))) vec3_array_heap
       = Inr (vec3_array_cell, vec3_array_heap)"
proof -
  have a: "m_type vec3_cell = VECTOR3" "m_value vec3_cell = FloatPtrValue 100"
    "m_count vec3_cell = 1"
    by (simp_all add: vec3_cell_def)
  have b: "floats vec3_heap 100 = Some [Fin 1, Fin 2, Fin 3]"
    "floats vec3_heap (brk vec3_heap) = None"
    by (simp_all add: vec3_heap_def heap0_def)
  have c: "m_value (MaterialParameter (Some ''u_lightColor'')) = Zeroed"
    by (simp add: MaterialParameter_def)
  have d: "m_type vec3_array_cell = VECTOR3" "m_value vec3_array_cell = FloatPtrValue 200"
    "1 < m_count vec3_array_cell" "m_count vec3_array_cell = 2"
    "m_uniform vec3_array_cell = None"
    by (simp_all add: vec3_array_cell_def)
  have e: "floats vec3_array_heap 200 = Some [Fin 1, Fin 2, Fin 3, Fin 4, Fin 5, Fin 6]"
    "floats vec3_array_heap (brk vec3_array_heap) = None"
    by (simp_all add: vec3_array_heap_def heap0_def)
  have f: "(MaterialParameter (Some ''u_lightColor''))
             \<lparr>m_type := VECTOR3, m_count := 2, m_dynamic := False, m_uniform := None,
              m_value := FloatPtrValue 200\<rparr> = vec3_array_cell"
    by (simp add: MaterialParameter_def vec3_array_cell_def)
  have n: "(100 :: nat) \<noteq> 0" "(200 :: nat) \<noteq> 0"
    by simp_all
  from cloneInto_Vector3[OF a(1) a(2) n(1) b(1) b(2) c] a(3)
  have one: "\<exists>p' h' a'. cloneInto vec3_cell (Some (MaterialParameter (Some ''u_lightColor''))) vec3_heap
                    = Inr (p', h')
          \<and> m_type p' = VECTOR3 \<and> m_count p' = 1 \<and> m_dynamic p'
          \<and> m_value p' = FloatPtrValue a' \<and> a' \<noteq> 100 \<and> a' \<in> owned h'
          \<and> floats h' a' = Some [Fin 1, Fin 2, Fin 3]
          \<and> floats h' 100 = Some [Fin 1, Fin 2, Fin 3]
          \<and> (\<forall>pid av w q h''. setAnimationPropertyValue pid av w p' h' = Inr (q, h'')
                 \<longrightarrow> floats h'' 100 = Some [Fin 1, Fin 2, Fin 3])"
    by simp
  from cloneInto_Vector3[OF d(1) d(2) n(2) e(1) e(2) c] d(3)
  have many: "cloneInto vec3_array_cell (Some (MaterialParameter (Some ''u_lightColor'')))
                vec3_array_heap = Inr (vec3_array_cell, vec3_array_heap)"
    by (simp add: d(4,5) f)
  from a b c d(1,2,3) e n one many show ?thesis by simp
qed

subsection \<open>Reading, then blending at weight 1\<close>

text \<open>
  Claim C6, as amended. For a Float cell (scalar or array) and a single Vector2,
  Vector3 or Vector4 whose channels are finite floats, and for an Int cell (scalar or
  array) whose ints convert to float exactly, which every int of magnitude below
  \<open>2 ^ 24\<close> does: reading the cell into an animation value and blending that value
  back with weight 1 leaves every stored channel as it was. Arrays of vectors are left
  out.
\<close>

theorem read_then_blend_one:
  "(float_channels p h = Some xs \<and> length av = length xs
      \<and> (m_type p = FLOAT \<or> m_count p = 1) \<and> list_all finite32 xs \<longrightarrow>
      getAnimationPropertyValue ANIMATE_UNIFORM (Some av) p h = Inr xs
      \<and> (\<exists>p' h'. setAnimationPropertyValue ANIMATE_UNIFORM (Some xs) (Fin 1) p h = Inr (p', h')
             \<and> float_channels p' h' = Some xs))
   \<and> (int_channels p h = Some ys \<and> length av = length ys \<and> list_all int_exact ys \<longrightarrow>
      getAnimationPropertyValue ANIMATE_UNIFORM (Some av) p h = Inr (map float_of_int ys)
      \<and> (\<exists>p' h'. setAnimationPropertyValue ANIMATE_UNIFORM (Some (map float_of_int ys)) (Fin 1) p h
                    = Inr (p', h')
             \<and> int_channels p' h' = Some ys))
   \<and> (\<forall>i. \<bar>sint i\<bar> < 2 ^ 24 \<longrightarrow> int_exact i)"
  using roundtrip_floats[of p h xs av] roundtrip_ints[of p h ys av] int_exact_small
  by blast

theorem read_then_blend_one_witness:
  "float_channels vec3_cell vec3_heap = Some [Fin 1, Fin 2, Fin 3]
   \<and> length [Fin 0, Fin 0, Fin 0] = length [Fin 1, Fin 2, Fin 3 :: float32]
   \<and> (m_type vec3_cell = FLOAT \<or> m_count vec3_cell = 1)
   \<and> list_all finite32 [Fin 1, Fin 2, Fin 3]
   \<and> getAnimationPropertyValue ANIMATE_UNIFORM (Some [Fin 0, Fin 0, Fin 0]) vec3_cell vec3_heap
       = Inr [Fin 1, Fin 2, Fin 3]
   \<and> (\<exists>p' h'. setAnimationPropertyValue ANIMATE_UNIFORM (Some [Fin 1, Fin 2, Fin 3]) (Fin 1)
                 vec3_cell vec3_heap = Inr (p', h')
          \<and> float_channels p' h' = Some [Fin 1, Fin 2, Fin 3])
   \<and> int_channels (int_cell 7) heap0 = Some [7]
   \<and> length [Fin 0] = length [7 :: 32 word]
   \<and> list_all int_exact [7]
   \<and> getAnimationPropertyValue ANIMATE_UNIFORM (Some [Fin 0]) (int_cell 7) heap0 = Inr [Fin 7]
   \<and> (\<exists>p' h'. setAnimationPropertyValue ANIMATE_UNIFORM (Some [Fin 7]) (Fin 1) (int_cell 7) heap0
                 = Inr (p', h')
          \<and> int_channels p' h' = Some [7])
   \<and> \<bar>sint (7 :: 32 word)\<bar> < 2 ^ 24 \<and> int_exact 7"
proof -
  have a: "float_channels vec3_cell vec3_heap = Some [Fin 1, Fin 2, Fin 3]"
    by (simp add: float_channels_def array_channels_def vec3_cell_def vec3_heap_def)
  have b: "m_type vec3_cell = FLOAT \<or> m_count vec3_cell = 1"
    by (simp add: vec3_cell_def)
  have c: "list_all finite32 [Fin 1, Fin 2, Fin 3]"
    by code_simp
  have d: "int_channels (int_cell 7) heap0 = Some [7]"
    by (simp add: int_channels_def int_cell_def)
  have e: "list_all int_exact [7]"
    by code_simp
  have f: "map float_of_int [7] = [Fin 7]"
    by code_simp
  have g: "\<bar>sint (7 :: 32 word)\<bar> < 2 ^ 24"
    by simp
  from read_then_blend_one[of vec3_cell vec3_heap "[Fin 1, Fin 2, Fin 3]" "[Fin 0, Fin 0, Fin 0]" "[]"]
    read_then_blend_one[of "int_cell 7" heap0 "[]" "[Fin 0]" "[7]"] a b c d e f g
  show ?thesis by simp
qed

text \<open>
  The claim as stated fails. An Int cell holding \<open>2 ^ 24 + 1\<close> reads as the float
  \<open>2 ^ 24\<close> and is blended back to \<open>2 ^ 24\<close>; a Float cell holding an infinity reads
  as that infinity and is blended back to NaN.
\<close>

theorem read_then_blend_one_counterexample:
  "getAnimationPropertyValue ANIMATE_UNIFORM (Some [Fin 0]) (int_cell 16777217) heap0
     = Inr [Fin 16777216]
   \<and> setAnimationPropertyValue ANIMATE_UNIFORM (Some [Fin 16777216]) (Fin 1)
       (int_cell 16777217) heap0
     = Inr (int_cell 16777216, heap0)
   \<and> getAnimationPropertyValue ANIMATE_UNIFORM (Some [Fin 0]) (scalar_cell PInf) heap0
     = Inr [PInf]
   \<and> setAnimationPropertyValue ANIMATE_UNIFORM (Some [PInf]) (Fin 1) (scalar_cell PInf) heap0
     = Inr (scalar_cell NaN, heap0)"
proof -
  have a: "float_of_int 16777217 = Fin 16777216"
    by code_simp
  have b: "int_of_float (lerp (Fin 1) (Fin 16777216) (Fin 16777216)) = Inr 16777216"
    by code_simp
  have c: "lerp (Fin 1) PInf PInf = NaN"
    by code_simp
  show ?thesis
    using a b c
    by (simp add: getAnimationPropertyValue_def setAnimationPropertyValue_def getFloat_def
        setFloat_def int_cell_def scalar_cell_def)
qed

subsection \<open>Binding against an effect without the uniform\<close>

text \<open>
  Claim C7, as amended. When the effect exposes no uniform under the parameter's name and
  the parameter holds no uniform handed out by this effect (none at all, or one of
  another effect), \<open>bind\<close> returns normally, the cell keeps its kind, count, ownership
  flag and payload (only the cached uniform is reset to null), and the one thing added to
  the trace is the warning: no call on the effect is made.
\<close>

theorem bind_without_uniform:
  assumes "e_uniforms e (m_name p) = None" and "\<not> cached_for e p"
  shows "bind (Some e) p h =
           Inr (p\<lparr>m_uniform := None\<rparr>, h\<lparr>trace := trace h @ [Warning (m_name p) (e_id e)]\<rparr>)"
  using assms
  by (cases "m_uniform p") (simp_all add: bind_def bind_lookup_def cached_for_def)

text \<open>
  The amended claim at work on a parameter \<open>lightColor\<close> holding \<open>1.0f\<close>, first with no
  cached uniform, then with a uniform cached from another effect.
\<close>

theorem bind_without_uniform_witness:
  "e_uniforms example_effect (m_name (float_cell\<lparr>m_name := ''lightColor''\<rparr>)) = None
   \<and> \<not> cached_for example_effect (float_cell\<lparr>m_name := ''lightColor''\<rparr>)
   \<and> bind (Some example_effect) (float_cell\<lparr>m_name := ''lightColor''\<rparr>) heap0
       = Inr (float_cell\<lparr>m_name := ''lightColor''\<rparr>,
              heap0\<lparr>trace := [Warning ''lightColor'' ''textured'']\<rparr>)
   \<and> e_uniforms example_effect
         (m_name (float_cell\<lparr>m_name := ''lightColor'',
                    m_uniform := Some \<lparr>u_name = ''lightColor'', u_effect = 8\<rparr>\<rparr>)) = None
   \<and> \<not> cached_for example_effect
          (float_cell\<lparr>m_name := ''lightColor'',
             m_uniform := Some \<lparr>u_name = ''lightColor'', u_effect = 8\<rparr>\<rparr>)
   \<and> bind (Some example_effect)
         (float_cell\<lparr>m_name := ''lightColor'',
            m_uniform := Some \<lparr>u_name = ''lightColor'', u_effect = 8\<rparr>\<rparr>) heap0
       = Inr (float_cell\<lparr>m_name := ''lightColor''\<rparr>,
              heap0\<lparr>trace := [Warning ''lightColor'' ''textured'']\<rparr>)"
proof -
  let ?p = "float_cell\<lparr>m_name := ''lightColor''\<rparr>"
  let ?q = "float_cell\<lparr>m_name := ''lightColor'',
              m_uniform := Some \<lparr>u_name = ''lightColor'', u_effect = 8\<rparr>\<rparr>"
  have a: "e_uniforms example_effect (m_name ?p) = None"
    "e_uniforms example_effect (m_name ?q) = None"
    by (simp_all add: example_effect_def float_cell_def)
  have b: "\<not> cached_for example_effect ?p" "\<not> cached_for example_effect ?q"
    by (simp_all add: cached_for_def float_cell_def example_effect_def)
  from bind_without_uniform[OF a(1) b(1), of heap0] bind_without_uniform[OF a(2) b(2), of heap0]
    a b
  show ?thesis by (simp add: float_cell_def heap0_def example_effect_def)
qed

text \<open>
  Claim C7 as stated fails for a parameter that holds a uniform of the effect: \<open>bind\<close>
  then skips the lookup by name, and \<open>cloneInto\<close> copies the cached uniform whatever the
  name of its target. A parameter \<open>u_diffuseColor\<close> is set to \<open>1.0f\<close> and bound to an
  effect that exposes \<open>u_diffuseColor\<close> only, then cloned into a new parameter
  \<open>lightColor\<close>. The effect exposes no uniform \<open>lightColor\<close>, and binding the clone
  uploads \<open>1.0f\<close> to \<open>u_diffuseColor\<close> with no warning.
\<close>

theorem bind_cached_uniform_uploads:
  "setValue_float (Fin 1) (MaterialParameter (Some ''u_diffuseColor'')) heap0
     = Inr (float_cell\<lparr>m_name := ''u_diffuseColor''\<rparr>, heap0)
   \<and> bind (Some example_effect) (float_cell\<lparr>m_name := ''u_diffuseColor''\<rparr>) heap0
     = Inr (float_cell\<lparr>m_name := ''u_diffuseColor'', m_uniform := Some diffuse_uniform\<rparr>,
            heap0\<lparr>trace := [EffectSetValue diffuse_uniform (UFloat (Fin 1))]\<rparr>)
   \<and> cloneInto (float_cell\<lparr>m_name := ''u_diffuseColor'', m_uniform := Some diffuse_uniform\<rparr>)
       (Some (MaterialParameter (Some ''lightColor'')))
       (heap0\<lparr>trace := [EffectSetValue diffuse_uniform (UFloat (Fin 1))]\<rparr>)
     = Inr (float_cell\<lparr>m_name := ''lightColor'', m_uniform := Some diffuse_uniform\<rparr>,
            heap0\<lparr>trace := [EffectSetValue diffuse_uniform (UFloat (Fin 1))]\<rparr>)
   \<and> e_uniforms example_effect
        (m_name (float_cell\<lparr>m_name := ''lightColor'', m_uniform := Some diffuse_uniform\<rparr>))
     = None
   \<and> bind (Some example_effect)
       (float_cell\<lparr>m_name := ''lightColor'', m_uniform := Some diffuse_uniform\<rparr>)
       (heap0\<lparr>trace := [EffectSetValue diffuse_uniform (UFloat (Fin 1))]\<rparr>)
     = Inr (float_cell\<lparr>m_name := ''lightColor'', m_uniform := Some diffuse_uniform\<rparr>,
            heap0\<lparr>trace := [EffectSetValue diffuse_uniform (UFloat (Fin 1)),
                               EffectSetValue diffuse_uniform (UFloat (Fin 1))]\<rparr>)
   \<and> bind (Some example_effect)
       (float_cell\<lparr>m_name := ''lightColor'', m_uniform := Some diffuse_uniform\<rparr>)
       (heap0\<lparr>trace := [EffectSetValue diffuse_uniform (UFloat (Fin 1))]\<rparr>)
     \<noteq> Inr (float_cell\<lparr>m_name := ''lightColor'', m_uniform := None\<rparr>,
            heap0\<lparr>trace := [EffectSetValue diffuse_uniform (UFloat (Fin 1)),
                               Warning ''lightColor'' ''textured'']\<rparr>)"
  by (simp add: setValue_float_def clearValue_def MaterialParameter_def float_cell_def
      bind_def bind_lookup_def upload_value_def example_effect_def diffuse_uniform_def
      cloneInto_def heap0_def)

subsection \<open>Binding to a node accessor by name\<close>

text \<open>
  Claim C8, as amended. The name \<open>&Node::getTranslationWorld\<close> binds a well-formed
  parameter to the node's \<open>getTranslationWorld\<close> accessor, a \<open>Vector3\<close> of three
  channels, held as a method binding; every name outside the twenty of the comparison
  chain is a fatal error.
\<close>

theorem bindValue_names:
  "(cell_ok p h \<longrightarrow>
      (\<exists>p' h' m. bindValue node (Some ''&Node::getTranslationWorld'') p h = Inr (p', h')
         \<and> m_type p' = METHOD \<and> m_value p' = MethodValue m
         \<and> bindings h' m = Some \<lparr>b_node = node, b_accessor = GetTranslationWorld, b_rtype = RVector3\<rparr>
         \<and> arity RVector3 = 3))
   \<and> (\<forall>b. b \<notin> set binding_names \<longrightarrow>
         bindValue node (Some b) p h = Inl (Fatal ''Unsupported material parameter binding''))"
proof (intro conjI impI allI)
  assume "cell_ok p h"
  from clearValue_ok[OF this] obtain p1 h1 where "clearValue p h = Inr (p1, h1)" by blast
  then show "\<exists>p' h' m. bindValue node (Some ''&Node::getTranslationWorld'') p h = Inr (p', h')
         \<and> m_type p' = METHOD \<and> m_value p' = MethodValue m
         \<and> bindings h' m = Some \<lparr>b_node = node, b_accessor = GetTranslationWorld, b_rtype = RVector3\<rparr>
         \<and> arity RVector3 = 3"
    by (simp add: bindValue_def bindValue_method_def)
next
  fix b assume "b \<notin> set binding_names"
  then show "bindValue node (Some b) p h = Inl (Fatal ''Unsupported material parameter binding'')"
    by (simp add: binding_names_def bindValue_def)
qed

theorem bindValue_names_witness:
  "cell_ok (MaterialParameter (Some ''u_lightPosition'')) heap0
   \<and> (\<exists>p' h' m. bindValue 7 (Some ''&Node::getTranslationWorld'')
                    (MaterialParameter (Some ''u_lightPosition'')) heap0 = Inr (p', h')
         \<and> m_type p' = METHOD \<and> m_value p' = MethodValue m
         \<and> bindings h' m = Some \<lparr>b_node = 7, b_accessor = GetTranslationWorld, b_rtype = RVector3\<rparr>
         \<and> arity RVector3 = 3)
   \<and> ''bogusAccessor'' \<notin> set binding_names
   \<and> bindValue 7 (Some ''bogusAccessor'') (MaterialParameter (Some ''u_lightPosition'')) heap0
       = Inl (Fatal ''Unsupported material parameter binding'')"
proof -
  have a: "cell_ok (MaterialParameter (Some ''u_lightPosition'')) heap0"
    by (simp add: cell_ok_def MaterialParameter_def)
  have b: "''bogusAccessor'' \<notin> set binding_names"
    by (simp add: binding_names_def)
  from bindValue_names[of "MaterialParameter (Some ''u_lightPosition'')" heap0 7] a b
  show ?thesis by blast
qed

text \<open>
  The claim as stated fails: the chain compares against names that carry the prefix
  \<open>&Node::\<close>, so the bare \<open>getTranslationWorld\<close> is a fatal error.
\<close>

theorem bindValue_unprefixed_name:
  "bindValue 7 (Some ''getTranslationWorld'') (MaterialParameter (Some ''u_lightPosition'')) heap0
     = Inl (Fatal ''Unsupported material parameter binding'')"
  by (simp add: bindValue_def)

subsection \<open>Blending an Int cell\<close>

text \<open>
  Claim C9. Blending an Int cell, scalar or array, stores for every channel the
  conversion to \<open>int\<close> of the float \<open>lerp\<close> of the stored int (converted to float) and
  the input; the conversion is truncation toward zero: the stored int is the real
  result with its fractional part dropped, never farther from zero than the result and
  less than 1 away from it, so \<open>2.75\<close> gives 2 and \<open>-2.75\<close> gives \<open>-2\<close>, where rounding
  to nearest would give 3 and \<open>-3\<close>.
\<close>

theorem blend_int_truncates:
  "(int_channels p h = Some ys \<and> fle (Fin 0) w \<and> fle w (Fin 1)
      \<and> list_all2 (\<lambda>i v. in_int_range (lerp w (float_of_int i) v)) ys av \<longrightarrow>
      (\<exists>p' h'. setAnimationPropertyValue ANIMATE_UNIFORM (Some av) w p h = Inr (p', h')
          \<and> int_channels p' h' = Some (map2 (\<lambda>i v. trunc32 (lerp w (float_of_int i) v)) ys av)))
   \<and> (\<forall>x. in_int_range (Fin x) \<longrightarrow>
          sint (trunc32 (Fin x)) = trunc_toward_zero x
          \<and> \<bar>real_of_int (trunc_toward_zero x)\<bar> \<le> \<bar>x\<bar>
          \<and> \<bar>x - real_of_int (trunc_toward_zero x)\<bar> < 1)
   \<and> trunc32 (Fin (11 / 4)) = 2 \<and> trunc32 (Fin (- 11 / 4)) = - 2"
proof (intro conjI impI allI)
  assume a: "int_channels p h = Some ys \<and> fle (Fin 0) w \<and> fle w (Fin 1)
      \<and> list_all2 (\<lambda>i v. in_int_range (lerp w (float_of_int i) v)) ys av"
  then have len: "length av = length ys" by (auto dest: list_all2_lengthD)
  from a setAnimationPropertyValue_int_channels[of p h ys av w] len
  show "\<exists>p' h'. setAnimationPropertyValue ANIMATE_UNIFORM (Some av) w p h = Inr (p', h')
          \<and> int_channels p' h' = Some (map2 (\<lambda>i v. trunc32 (lerp w (float_of_int i) v)) ys av)"
    by auto
next
  fix x assume "in_int_range (Fin x)"
  then show "sint (trunc32 (Fin x)) = trunc_toward_zero x"
    by (simp add: sint_sbintrunc' signed_take_bit_int_eq_self)
next
  fix x show "\<bar>real_of_int (trunc_toward_zero x)\<bar> \<le> \<bar>x\<bar>"
    using truncate_toward_zero[of x] by simp
next
  fix x show "\<bar>x - real_of_int (trunc_toward_zero x)\<bar> < 1"
    using truncate_toward_zero[of x] by simp
next
  show "trunc32 (Fin (11 / 4)) = 2" by code_simp
next
  show "trunc32 (Fin (- 11 / 4)) = - 2" by code_simp
qed

theorem blend_int_truncates_witness:
  "int_channels (int_cell 7) heap0 = Some [7] \<and> fle (Fin 0) (Fin (1 / 2)) \<and> fle (Fin (1 / 2)) (Fin 1)
   \<and> list_all2 (\<lambda>i v. in_int_range (lerp (Fin (1 / 2)) (float_of_int i) v)) [7] [Fin (11 / 4)]
   \<and> (\<exists>p' h'. setAnimationPropertyValue ANIMATE_UNIFORM (Some [Fin (11 / 4)]) (Fin (1 / 2))
                 (int_cell 7) heap0 = Inr (p', h')
          \<and> int_channels p' h' = Some [4])
   \<and> lerp (Fin (1 / 2)) (float_of_int 7) (Fin (11 / 4)) = Fin (39 / 8)
   \<and> in_int_range (Fin (39 / 8))
   \<and> sint (trunc32 (Fin (39 / 8))) = trunc_toward_zero (39 / 8)
   \<and> \<bar>real_of_int (trunc_toward_zero (39 / 8))\<bar> \<le> \<bar>39 / 8 :: real\<bar>
   \<and> \<bar>39 / 8 - real_of_int (trunc_toward_zero (39 / 8))\<bar> < 1"
proof -
  have a: "int_channels (int_cell 7) heap0 = Some [7]"
    by (simp add: int_channels_def int_cell_def)
  have b: "list_all2 (\<lambda>i v. in_int_range (lerp (Fin (1 / 2)) (float_of_int i) v)) [7] [Fin (11 / 4)]"
    by code_simp
  have c: "map2 (\<lambda>i v. trunc32 (lerp (Fin (1 / 2)) (float_of_int i) v)) [7] [Fin (11 / 4)] = [4]"
    by code_simp
  have d: "lerp (Fin (1 / 2)) (float_of_int 7) (Fin (11 / 4)) = Fin (39 / 8)"
    by code_simp
  have e: "in_int_range (Fin (39 / 8))"
    by code_simp
  have f: "fle (Fin 0) (Fin (1 / 2)) \<and> fle (Fin (1 / 2)) (Fin 1)"
    by simp
  have g: "trunc_toward_zero (39 / 8) = 4"
    by code_simp
  from blend_int_truncates[of "int_cell 7" heap0 "[7]" "Fin (1 / 2)" "[Fin (11 / 4)]"] a b c d e f g
  show ?thesis by simp
qed

subsection \<open>Setting a null sampler\<close>

text \<open>
  Claim C10. \<open>setValue\<close> with a null sampler returns normally and leaves a zeroed cell of
  kind \<open>NONE\<close>: no sampler is stored and no reference is added. The store changes only
  by what clearing the prior value gives back. A cell with nothing to give back leaves
  the store as it was, so that no reference count changes and nothing is traced. A cell
  holding a sampler or a method binding releases it once, its count going down by one,
  or the object being deleted when that was the last reference. A cell owning an array
  frees it once.
\<close>

theorem setValue_Sampler_null:
  "(holding p = Nothing \<longrightarrow>
      setValue_Sampler 0 p h
        = Inr (p\<lparr>m_dynamic := False, m_count := (if m_dynamic p then 1 else m_count p),
                 m_value := Zeroed, m_type := NONE\<rparr>, h))
   \<and> (holding p = Reference r \<and> refs h r = Some (Suc (Suc n)) \<longrightarrow>
      setValue_Sampler 0 p h
        = Inr (p\<lparr>m_dynamic := False, m_count := (if m_dynamic p then 1 else m_count p),
                 m_value := Zeroed, m_type := NONE\<rparr>,
               h\<lparr>refs := (refs h)(r \<mapsto> Suc n), trace := trace h @ [Release r]\<rparr>))
   \<and> (holding p = Reference r \<and> refs h r = Some (Suc 0) \<longrightarrow>
      setValue_Sampler 0 p h
        = Inr (p\<lparr>m_dynamic := False, m_count := (if m_dynamic p then 1 else m_count p),
                 m_value := Zeroed, m_type := NONE\<rparr>,
               h\<lparr>refs := (refs h)(r := None), bindings := (bindings h)(r := None),
                  trace := trace h @ [Release r, DeleteRef r]\<rparr>))
   \<and> (holding p = OwnedFloats a \<and> a \<in> owned h \<and> floats h a \<noteq> None \<longrightarrow>
      setValue_Sampler 0 p h
        = Inr (p\<lparr>m_dynamic := False, m_count := (if m_dynamic p then 1 else m_count p),
                 m_value := Zeroed, m_type := NONE\<rparr>,
               h\<lparr>floats := (floats h)(a := None), owned := owned h - {a},
                  trace := trace h @ [DeleteArray a]\<rparr>))
   \<and> (holding p = OwnedInts a \<and> a \<in> owned h \<and> ints h a \<noteq> None \<longrightarrow>
      setValue_Sampler 0 p h
        = Inr (p\<lparr>m_dynamic := False, m_count := (if m_dynamic p then 1 else m_count p),
                 m_value := Zeroed, m_type := NONE\<rparr>,
               h\<lparr>ints := (ints h)(a := None), owned := owned h - {a},
                  trace := trace h @ [DeleteArray a]\<rparr>))"
  using clearValue_holding[of p h r n a]
  by (auto simp: setValue_Sampler_def)

text \<open>
  Claim C10 on five cells: a float scalar, a sampler shared with another holder (its
  count goes from 2 to 1), a sampler held by the cell alone (deleted), an owned vector
  and an owned int array.
\<close>

theorem setValue_Sampler_null_witness:
  "holding float_cell = Nothing
   \<and> setValue_Sampler 0 float_cell sampler_heap
       = Inr (float_cell\<lparr>m_value := Zeroed, m_type := NONE\<rparr>, sampler_heap)
   \<and> holding sampler_cell = Reference 5 \<and> refs sampler_heap 5 = Some (Suc (Suc 0))
   \<and> setValue_Sampler 0 sampler_cell sampler_heap
       = Inr (sampler_cell\<lparr>m_value := Zeroed, m_type := NONE\<rparr>,
              sampler_heap\<lparr>refs := (refs sampler_heap)(5 \<mapsto> Suc 0), trace := [Release 5]\<rparr>)
   \<and> refs sole_sampler_heap 5 = Some (Suc 0)
   \<and> setValue_Sampler 0 sampler_cell sole_sampler_heap
       = Inr (sampler_cell\<lparr>m_value := Zeroed, m_type := NONE\<rparr>,
              heap0\<lparr>brk := 6, trace := [Release 5, DeleteRef 5]\<rparr>)
   \<and> holding vec3_cell = OwnedFloats 100 \<and> 100 \<in> owned vec3_heap
   \<and> floats vec3_heap 100 \<noteq> None
   \<and> setValue_Sampler 0 vec3_cell vec3_heap
       = Inr (vec3_cell\<lparr>m_dynamic := False, m_value := Zeroed, m_type := NONE\<rparr>,
              heap0\<lparr>brk := 101, trace := [DeleteArray 100]\<rparr>)
   \<and> holding int_array_cell = OwnedInts 300 \<and> 300 \<in> owned int_array_heap
   \<and> ints int_array_heap 300 \<noteq> None
   \<and> setValue_Sampler 0 int_array_cell int_array_heap
       = Inr (int_array_cell\<lparr>m_dynamic := False, m_value := Zeroed, m_type := NONE\<rparr>,
              heap0\<lparr>brk := 301, trace := [DeleteArray 300]\<rparr>)"
proof -
  have a: "holding float_cell = Nothing"
    by (simp add: holding_def float_cell_def)
  have b: "holding sampler_cell = Reference 5" "refs sampler_heap 5 = Some (Suc (Suc 0))"
    "refs sole_sampler_heap 5 = Some (Suc 0)"
    by (simp_all add: holding_def sampler_cell_def sampler_heap_def sole_sampler_heap_def
        numeral_2_eq_2)
  have c: "holding vec3_cell = OwnedFloats 100" "100 \<in> owned vec3_heap"
    "floats vec3_heap 100 \<noteq> None"
    by (simp_all add: holding_def vec3_cell_def vec3_heap_def)
  have d: "holding int_array_cell = OwnedInts 300" "300 \<in> owned int_array_heap"
    "ints int_array_heap 300 \<noteq> None"
    by (simp_all add: holding_def int_array_cell_def int_array_heap_def)
  have e: "m_dynamic float_cell = False" "m_dynamic sampler_cell = False"
    "m_dynamic vec3_cell = True" "m_count vec3_cell = 1"
    "m_dynamic int_array_cell = True" "m_count int_array_cell = 1"
    by (simp_all add: float_cell_def sampler_cell_def vec3_cell_def int_array_cell_def)
  have f: "float_cell\<lparr>m_dynamic := False, m_count := m_count float_cell\<rparr> = float_cell"
    "sampler_cell\<lparr>m_dynamic := False, m_count := m_count sampler_cell\<rparr> = sampler_cell"
    "vec3_cell\<lparr>m_dynamic := False, m_count := 1\<rparr> = vec3_cell\<lparr>m_dynamic := False\<rparr>"
    "int_array_cell\<lparr>m_dynamic := False, m_count := 1\<rparr> = int_array_cell\<lparr>m_dynamic := False\<rparr>"
    by (simp_all add: float_cell_def sampler_cell_def vec3_cell_def int_array_cell_def)
  have g: "sole_sampler_heap\<lparr>refs := (refs sole_sampler_heap)(5 := None),
              bindings := (bindings sole_sampler_heap)(5 := None),
              trace := trace sole_sampler_heap @ [Release 5, DeleteRef 5]\<rparr>
            = heap0\<lparr>brk := 6, trace := [Release 5, DeleteRef 5]\<rparr>"
    "vec3_heap\<lparr>floats := (floats vec3_heap)(100 := None), owned := owned vec3_heap - {100},
              trace := trace vec3_heap @ [DeleteArray 100]\<rparr>
            = heap0\<lparr>brk := 101, trace := [DeleteArray 100]\<rparr>"
    "int_array_heap\<lparr>ints := (ints int_array_heap)(300 := None),
              owned := owned int_array_heap - {300},
              trace := trace int_array_heap @ [DeleteArray 300]\<rparr>
            = heap0\<lparr>brk := 301, trace := [DeleteArray 300]\<rparr>"
    "trace sampler_heap = []"
    by (simp_all add: sole_sampler_heap_def vec3_heap_def int_array_heap_def sampler_heap_def
        heap0_def)
  from setValue_Sampler_null[of float_cell sampler_heap 0 0 0]
    setValue_Sampler_null[of sampler_cell sampler_heap 5 0 0]
    setValue_Sampler_null[of sampler_cell sole_sampler_heap 5 0 0]
    setValue_Sampler_null[of vec3_cell vec3_heap 0 0 100]
    setValue_Sampler_null[of int_array_cell int_array_heap 0 0 300]
    a b c d
  show ?thesis by (simp add: e f g)
qed

end
